theory Spec2Isabelle
  imports Complex_Main "HOL-Library.AList" "HOL-Library.Sublist"
    "HOL-Library.Char_ord" "HOL-Library.List_Lexorder"
begin

section \<open>Data model\<close>

text \<open>
  The review pipeline of \<^verbatim>\<open>src/agent.py\<close>, \<^verbatim>\<open>src/analyzer.py\<close> and
  \<^verbatim>\<open>src/visualization.py\<close>.

  A Python \<^verbatim>\<open>dict\<close> is an association list in insertion order with distinct keys:
  \<open>map_of d k\<close> is \<^verbatim>\<open>d.get(k)\<close>, \<open>k \<in> fst ` set d\<close> is \<^verbatim>\<open>k in d\<close>, and
  \<open>AList.update k v d\<close> is \<^verbatim>\<open>d[k] = v\<close> (the value is replaced in place when the key
  is present, the pair is appended otherwise).

  A Python float is finite and is read as the real number it denotes; a numpy array of
  floats is the list of its components under the constructor \<open>Array\<close>. The similarity
  scores, which are computed in floating point, are taken from the library as it
  returns them.
\<close>

datatype ndarray = Array "real list"

fun tolist :: "ndarray \<Rightarrow> real list" where
  "tolist (Array xs) = xs"

record topic =
  examples :: "string list"
  embedding :: ndarray
  created_at :: string

type_synonym taxonomy = "(string \<times> topic) list"

text \<open>
  Exceptions. \<open>ValueError\<close> is what numpy and scikit-learn raise on rows of
  different length and on vectors without components, \<open>JSONDecodeError\<close> what
  \<^verbatim>\<open>json.load\<close> raises on a file that is not JSON, \<open>FileNotFoundError\<close> what
  writing into a missing directory raises, and \<open>External msg\<close> is an exception raised
  by an external collaborator (the language model, the plotting library).
\<close>

datatype error = ValueError | JSONDecodeError | FileNotFoundError | External string

section \<open>Similarity scores and argmax\<close>

text \<open>
  The similarity scores are computed outside of this repository, in double precision,
  by \<^verbatim>\<open>sklearn.metrics.pairwise.cosine_similarity\<close>: the routine is a parameter
  \<open>cosine_similarity\<close> of the resolution. It takes the embedded phrase and the stored
  rows and gives row 0 of the matrix the library returns, one score for each stored
  row; a score is the real number its double denotes. \<^verbatim>\<open>np.argmax\<close> returns the
  first index of the maximum.
\<close>

fun argmax :: "real list \<Rightarrow> nat" where
  "argmax [] = 0"
| "argmax [x] = 0"
| "argmax (x # y # ys) =
     (let j = argmax (y # ys) in if x < (y # ys) ! j then Suc j else 0)"

section \<open>TaxonomyManager\<close>

text \<open>
  The literal \<^verbatim>\<open>0.82\<close> of the source is the double nearest to 82/100, which is
  \<^verbatim>\<open>7385903388887613 / 2^53\<close>, a little below 82/100; the scores are compared
  with this number.
\<close>

definition SIMILARITY_THRESHOLD :: real where
  "SIMILARITY_THRESHOLD = 7385903388887613 / 2 ^ 53"

text \<open>
  The embedding model is external: \<open>embed_query\<close> is a parameter of every function
  that embeds a text.
\<close>

definition get_topic_embedding :: "(string \<Rightarrow> real list) \<Rightarrow> string \<Rightarrow> ndarray" where
  "get_topic_embedding embed_query text = Array (embed_query text)"

text \<open>
  \<^verbatim>\<open>map_extracted_topic\<close>. The stacked matrix of stored embeddings and the pairwise
  similarity need every stored row to have as many components as the embedded input,
  and at least one; otherwise the call raises.
\<close>

definition shapes_agree :: "real list \<Rightarrow> real list list \<Rightarrow> bool" where
  "shapes_agree raw rows = (raw \<noteq> [] \<and> list_all (\<lambda>r. length r = length raw) rows)"

definition existing_embeddings_of :: "taxonomy \<Rightarrow> real list list" where
  "existing_embeddings_of topics = map (\<lambda>(t, details). tolist (embedding details)) topics"

definition map_extracted_topic ::
  "(string \<Rightarrow> real list) \<Rightarrow> (real list \<Rightarrow> real list list \<Rightarrow> real list) \<Rightarrow>
   taxonomy \<Rightarrow> string \<Rightarrow> error + string" where
  "map_extracted_topic embed_query cosine_similarity topics raw_topic =
     (if topics = [] then Inr raw_topic
      else
        let raw_embedding = tolist (get_topic_embedding embed_query raw_topic);
            existing_topics = map fst topics;
            existing_embeddings = existing_embeddings_of topics
        in if \<not> shapes_agree raw_embedding existing_embeddings then Inl ValueError
           else
             let similarities = cosine_similarity raw_embedding existing_embeddings;
                 best_idx = argmax similarities;
                 best_score = similarities ! best_idx;
                 best_topic = existing_topics ! best_idx
             in if best_score \<ge> SIMILARITY_THRESHOLD then Inr best_topic
                else Inr raw_topic)"

text \<open>
  \<^verbatim>\<open>add_new_topic\<close>; \<open>now\<close> is the reading of the clock
  (\<^verbatim>\<open>datetime.now().isoformat()\<close>) at the call.
\<close>

definition add_new_topic ::
  "(string \<Rightarrow> real list) \<Rightarrow> string \<Rightarrow> string \<Rightarrow> taxonomy \<Rightarrow> taxonomy" where
  "add_new_topic embed_query now topic_name topics =
     (if topic_name \<notin> fst ` set topics then
        let emb = get_topic_embedding embed_query topic_name
        in AList.update topic_name
             \<lparr>examples = [topic_name], embedding = emb, created_at = now\<rparr> topics
      else topics)"

section \<open>Files\<close>

text \<open>
  The working directory holds \<^verbatim>\<open>taxonomy.json\<close>, its backup
  \<^verbatim>\<open>taxonomy.json.bak\<close>, the directory \<^verbatim>\<open>data\<close> of per-date review files and
  the directory \<^verbatim>\<open>output\<close>, which may not exist yet. A JSON file is the value
  \<^verbatim>\<open>json.load\<close> reads from it; a directory is a dict from file name to file.
\<close>

record topic_json =
  j_examples :: "string list"
  j_embedding :: "real list"
  j_created_at :: string

record review =
  reviewId :: string
  content :: string
  score :: int
  review_at :: string

type_synonym stats = "(string \<times> int) list"

type_synonym frame = "(string \<times> (string \<times> real) list) list"

datatype out_file = StatsJson stats | Blob string | Table frame

record world =
  data_dir :: "(string \<times> review list) list"
  output_dir :: "(string \<times> out_file) list option"
  taxonomy_file :: "(string \<times> topic_json) list option"
  taxonomy_bak :: "(string \<times> topic_json) list option"

subsection \<open>Loading and saving the taxonomy\<close>

definition np_array :: "real list \<Rightarrow> ndarray" where
  "np_array xs = Array xs"

definition load_taxonomy :: "world \<Rightarrow> taxonomy" where
  "load_taxonomy w =
     (case taxonomy_file w of
        Some data \<Rightarrow>
          map (\<lambda>(topic, details).
                 (topic, \<lparr>examples = j_examples details,
                          embedding = np_array (j_embedding details),
                          created_at = j_created_at details\<rparr>)) data
      | None \<Rightarrow> [])"

definition serializable_topics :: "taxonomy \<Rightarrow> (string \<times> topic_json) list" where
  "serializable_topics topics =
     fold (\<lambda>(topic, details).
             AList.update topic
               \<lparr>j_examples = examples details,
                j_embedding = tolist (embedding details),
                j_created_at = created_at details\<rparr>) topics []"

definition save_taxonomy :: "taxonomy \<Rightarrow> world \<Rightarrow> world" where
  "save_taxonomy topics w =
     (let w1 = (case taxonomy_file w of
                  Some previous \<Rightarrow> w\<lparr>taxonomy_bak := Some previous\<rparr>
                | None \<Rightarrow> w)
      in w1\<lparr>taxonomy_file := Some (serializable_topics topics)\<rparr>)"

section \<open>ReviewAgent\<close>

text \<open>
  One object of the list the output parser returns; a key that is missing is \<open>None\<close>.
\<close>

record item =
  item_reviewId :: "string option"
  item_topic :: "string option"

text \<open>
  What a run prints or does to the outside, in order.
\<close>

datatype event =
    Skipped string
  | ExtractorCalled "review list"
  | ModelInvoked string
  | ExtractionFailed error
  | NewTopic string
  | StatsWritten string
  | TaxonomySaved
  | VisualizerInvoked
  | VisualizationNoData
  | VisualizationFailed error
  | PlotsSaved

text \<open>
  The external collaborators: the embedding model, the similarity routine, the clock
  (\<open>ext_now k\<close> is its reading when the \<open>k\<close>-th topic of a run is created), the prompt
  chain of the language model and the two plots. An external call returns \<open>Inl e\<close>
  when it raises.
\<close>

record env =
  ext_embed :: "string \<Rightarrow> real list"
  ext_cosine :: "real list \<Rightarrow> real list list \<Rightarrow> real list"
  ext_now :: "nat \<Rightarrow> string"
  ext_chain :: "string \<Rightarrow> error + item list"
  ext_heatmap :: "(string \<times> stats) list \<Rightarrow> error + string"
  ext_barplot :: "string \<Rightarrow> (string \<times> stats) list \<Rightarrow> error + string"

definition newline :: char where
  "newline = CHR 0x0A"

definition format_review :: "review \<Rightarrow> string" where
  "format_review r =
     ''ID: '' @ reviewId r @ [newline] @ ''Text: '' @ content r @ [newline] @ ''---'' @ [newline]"

fun format_reviews :: "string \<Rightarrow> review list \<Rightarrow> string" where
  "format_reviews reviews_text [] = reviews_text"
| "format_reviews reviews_text (r # rs) =
     (if length (content r) < 4 then format_reviews reviews_text rs
      else format_reviews (reviews_text @ format_review r) rs)"

definition extract_topics_batch ::
  "(string \<Rightarrow> error + item list) \<Rightarrow> review list \<Rightarrow> item list \<times> event list" where
  "extract_topics_batch chain reviews_batch =
     (let reviews_text = format_reviews [] reviews_batch
      in if reviews_text = [] then ([], [])
         else (case chain reviews_text of
                 Inr result \<Rightarrow> (result, [ModelInvoked reviews_text])
               | Inl e \<Rightarrow> ([], [ModelInvoked reviews_text, ExtractionFailed e])))"

section \<open>The daily batch\<close>

record batch_state =
  tm_topics :: taxonomy
  daily_topics :: stats
  ticks :: nat
  trace :: "event list"

definition CHUNK_SIZE :: nat where
  "CHUNK_SIZE = 20"

function py_range :: "nat \<Rightarrow> nat \<Rightarrow> nat \<Rightarrow> nat list" where
  "py_range i stop step =
     (if i < stop \<and> 0 < step then i # py_range (i + step) stop step else [])"
  by pat_completeness auto
termination
  by (relation "measure (\<lambda>(i, stop, step). stop - i)") auto

declare py_range.simps [simp del]

definition count_topic :: "string \<Rightarrow> stats \<Rightarrow> stats" where
  "count_topic mapped_topic daily =
     AList.update mapped_topic
       ((case map_of daily mapped_topic of None \<Rightarrow> 0 | Some c \<Rightarrow> c) + 1) daily"

text \<open>
  The inner loop over the extracted items of one chunk. \<open>update_and_count\<close> is the
  end of its body: the mapped topic is added to the taxonomy if it is new, then counted.
\<close>

definition update_and_count :: "env \<Rightarrow> string \<Rightarrow> batch_state \<Rightarrow> batch_state" where
  "update_and_count env mapped_topic st =
     (let st1 =
            (if mapped_topic \<notin> fst ` set (tm_topics st) then
               st\<lparr>tm_topics :=
                     add_new_topic (ext_embed env) (ext_now env (ticks st))
                       mapped_topic (tm_topics st),
                  ticks := Suc (ticks st),
                  trace := trace st @ [NewTopic mapped_topic]\<rparr>
             else st)
      in st1\<lparr>daily_topics := count_topic mapped_topic (daily_topics st1)\<rparr>)"

fun map_and_count :: "env \<Rightarrow> item list \<Rightarrow> batch_state \<Rightarrow> error + batch_state" where
  "map_and_count env [] st = Inr st"
| "map_and_count env (it # items) st =
     (case item_topic it of
        None \<Rightarrow> map_and_count env items st
      | Some raw_topic \<Rightarrow>
          if raw_topic = [] then map_and_count env items st
          else
            (case map_extracted_topic (ext_embed env) (ext_cosine env) (tm_topics st)
                    raw_topic of
               Inl e \<Rightarrow> Inl e
             | Inr mapped_topic \<Rightarrow>
                 map_and_count env items (update_and_count env mapped_topic st)))"

text \<open>
  The outer loop over the start indices of the chunks.
\<close>

fun process_chunks ::
  "env \<Rightarrow> review list \<Rightarrow> nat list \<Rightarrow> batch_state \<Rightarrow> error + batch_state" where
  "process_chunks env reviews [] st = Inr st"
| "process_chunks env reviews (i # starts) st =
     (let batch = take CHUNK_SIZE (drop i reviews);
          extracted = extract_topics_batch (ext_chain env) batch
      in case map_and_count env (fst extracted)
                (st\<lparr>trace := trace st @ [ExtractorCalled batch] @ snd extracted\<rparr>) of
           Inl e \<Rightarrow> Inl e
         | Inr st' \<Rightarrow> process_chunks env reviews starts st')"

text \<open>
  Observers of a run: the batches handed to the extractor, in order, and whether an
  extracted item carries a topic that is not empty.
\<close>

fun extractor_calls :: "event list \<Rightarrow> review list list" where
  "extractor_calls [] = []"
| "extractor_calls (ExtractorCalled batch # evs) = batch # extractor_calls evs"
| "extractor_calls (ev # evs) = extractor_calls evs"

definition has_topic :: "item \<Rightarrow> bool" where
  "has_topic it = (case item_topic it of None \<Rightarrow> False | Some raw_topic \<Rightarrow> raw_topic \<noteq> [])"

section \<open>Visualizer\<close>

text \<open>
  \<^verbatim>\<open>str.replace\<close> for a pattern that is not empty: every occurrence, left to right.
\<close>

function replace :: "string \<Rightarrow> string \<Rightarrow> string \<Rightarrow> string" where
  "replace old new [] = []"
| "replace old new (c # cs) =
     (if old \<noteq> [] \<and> prefix old (c # cs)
      then new @ replace old new (drop (length old) (c # cs))
      else c # replace old new cs)"
  by pat_completeness auto
termination
  by (relation "measure (\<lambda>(old, new, s). length s)") auto

text \<open>
  A file name matches \<^verbatim>\<open>stats_*.json\<close> exactly when it starts with
  \<^verbatim>\<open>stats_\<close> and ends with \<^verbatim>\<open>.json\<close>, since the two cannot overlap.
\<close>

definition is_stats_file :: "string \<Rightarrow> bool" where
  "is_stats_file f = (prefix ''stats_'' f \<and> suffix ''.json'' f)"

definition date_of :: "string \<Rightarrow> string" where
  "date_of f = replace ''.json'' [] (replace ''stats_'' [] f)"

fun load_stats_files ::
  "(string \<times> out_file) list \<Rightarrow> (string \<times> stats) list \<Rightarrow> error + (string \<times> stats) list" where
  "load_stats_files [] data = Inr data"
| "load_stats_files ((f, c) # files) data =
     (if is_stats_file f then
        (case c of
           StatsJson s \<Rightarrow> load_stats_files files (AList.update (date_of f) s data)
         | Blob b \<Rightarrow> Inl JSONDecodeError
         | Table t \<Rightarrow> Inl JSONDecodeError)
      else load_stats_files files data)"

text \<open>
  The files of the output directory; none when the directory does not exist.
  \<^verbatim>\<open>load_stats_data\<close>: the frame has one column per date and one row per topic; it
  is kept as the dict it is built from. It is empty when it has no column or no row.
\<close>

definition output_files :: "world \<Rightarrow> (string \<times> out_file) list" where
  "output_files w = (case output_dir w of None \<Rightarrow> [] | Some files \<Rightarrow> files)"

definition load_stats_data :: "world \<Rightarrow> error + (string \<times> stats) list" where
  "load_stats_data w = load_stats_files (output_files w) []"

definition df_empty :: "(string \<times> stats) list \<Rightarrow> bool" where
  "df_empty df = (df = [] \<or> list_all (\<lambda>(d, s). s = []) df)"

definition savefig :: "string \<Rightarrow> string \<Rightarrow> world \<Rightarrow> error + world" where
  "savefig name png w =
     (case output_dir w of
        None \<Rightarrow> Inl FileNotFoundError
      | Some files \<Rightarrow> Inr (w\<lparr>output_dir := Some (AList.update name (Blob png) files)\<rparr>))"

definition plot_heatmap :: "env \<Rightarrow> (string \<times> stats) list \<Rightarrow> world \<Rightarrow> error + world" where
  "plot_heatmap env df w =
     (if df_empty df then Inr w
      else (case ext_heatmap env df of
              Inl e \<Rightarrow> Inl e
            | Inr png \<Rightarrow> savefig ''topics_heatmap.png'' png w))"

definition plot_top_topics_bar ::
  "env \<Rightarrow> (string \<times> stats) list \<Rightarrow> string \<Rightarrow> world \<Rightarrow> error + world" where
  "plot_top_topics_bar env df date_col w =
     (if df_empty df then Inr w
      else if date_col \<noteq> [] \<and> date_col \<in> fst ` set df then
        (case ext_barplot env date_col df of
           Inl e \<Rightarrow> Inl e
         | Inr png \<Rightarrow> savefig (''top_topics_'' @ date_col @ ''.png'') png w)
      else Inr w)"

definition latest_date :: "(string \<times> stats) list \<Rightarrow> string" where
  "latest_date df = fold max (map fst df) []"

text \<open>
  \<^verbatim>\<open>generate_visualizations\<close>: whatever is raised inside is caught and printed; the
  files written before the failure stay.
\<close>

definition generate_visualizations :: "env \<Rightarrow> string option \<Rightarrow> world \<Rightarrow> world \<times> event list" where
  "generate_visualizations env current_date w =
     (case load_stats_data w of
        Inl e \<Rightarrow> (w, [VisualizationFailed e])
      | Inr df \<Rightarrow>
          if df_empty df then (w, [VisualizationNoData])
          else
            (case plot_heatmap env df w of
               Inl e \<Rightarrow> (w, [VisualizationFailed e])
             | Inr w1 \<Rightarrow>
                 let date_col = (case current_date of
                                   None \<Rightarrow> latest_date df
                                 | Some d \<Rightarrow> if d \<noteq> [] then d else latest_date df)
                 in (case plot_top_topics_bar env df date_col w1 of
                       Inl e \<Rightarrow> (w1, [VisualizationFailed e])
                     | Inr w2 \<Rightarrow> (w2, [PlotsSaved]))))"

section \<open>Orchestration\<close>

definition stats_file_name :: "string \<Rightarrow> string" where
  "stats_file_name date_str = ''stats_'' @ date_str @ ''.json''"

definition write_stats :: "string \<Rightarrow> stats \<Rightarrow> world \<Rightarrow> world" where
  "write_stats date_str daily w =
     w\<lparr>output_dir :=
         Some (AList.update (stats_file_name date_str) (StatsJson daily) (output_files w))\<rparr>"

text \<open>
  \<^verbatim>\<open>process_daily_batch\<close> returns the state of the run (taxonomy in memory, counts of
  the day, what happened) and the files it leaves.
\<close>

definition process_daily_batch ::
  "env \<Rightarrow> string \<Rightarrow> taxonomy \<Rightarrow> world \<Rightarrow> error + batch_state \<times> world" where
  "process_daily_batch env date_str topics w =
     (case map_of (data_dir w) (date_str @ ''.json'') of
        None \<Rightarrow>
          Inr (\<lparr>tm_topics = topics, daily_topics = [], ticks = 0, trace = [Skipped date_str]\<rparr>, w)
      | Some reviews \<Rightarrow>
          (case process_chunks env reviews (py_range 0 (length reviews) CHUNK_SIZE)
                  \<lparr>tm_topics = topics, daily_topics = [], ticks = 0, trace = []\<rparr> of
             Inl e \<Rightarrow> Inl e
           | Inr st \<Rightarrow>
               let w1 = write_stats date_str (daily_topics st) w;
                   w2 = save_taxonomy (tm_topics st) w1;
                   vis = generate_visualizations env (Some date_str) w2
               in Inr (st\<lparr>trace := trace st @
                            [StatsWritten (stats_file_name date_str), TaxonomySaved,
                             VisualizerInvoked] @ snd vis\<rparr>,
                       fst vis)))"

section \<open>Trend report\<close>

record entry =
  Date :: string
  Topic :: string
  Count :: int

fun gather :: "(string \<times> out_file) list \<Rightarrow> entry list \<Rightarrow> error + entry list" where
  "gather [] all_data = Inr all_data"
| "gather ((f, c) # files) all_data =
     (case c of
        StatsJson daily_stats \<Rightarrow>
          gather files
            (all_data @
             map (\<lambda>(topic, count). \<lparr>Date = date_of f, Topic = topic, Count = count\<rparr>) daily_stats)
      | Blob b \<Rightarrow> Inl JSONDecodeError
      | Table t \<Rightarrow> Inl JSONDecodeError)"

text \<open>
  \<^verbatim>\<open>pivot_table\<close> with its default aggregation, the mean of the counts of a
  (topic, date) pair: rows are the topics and columns the dates that occur in the
  entries, both sorted; a pair without entry is filled with 0. A row is a dict from
  column label to value.
\<close>

definition mean :: "int list \<Rightarrow> real" where
  "mean cs = real_of_int (sum_list cs) / real (length cs)"

definition cell :: "entry list \<Rightarrow> string \<Rightarrow> string \<Rightarrow> real" where
  "cell df t d =
     (let cs = map Count (filter (\<lambda>r. Topic r = t \<and> Date r = d) df)
      in if cs = [] then 0 else mean cs)"

definition pivot_table :: "entry list \<Rightarrow> frame" where
  "pivot_table df =
     (let index = sort (remdups (map Topic df));
          columns = sort (remdups (map Date df))
      in map (\<lambda>t. (t, map (\<lambda>d. (d, cell df t d)) columns)) index)"

definition sort_index_columns :: "frame \<Rightarrow> frame" where
  "sort_index_columns pivot_df = map (\<lambda>(t, row). (t, sort_key fst row)) pivot_df"

definition add_total :: "frame \<Rightarrow> frame" where
  "add_total pivot_df =
     map (\<lambda>(t, row). (t, AList.update ''Total'' (sum_list (map snd row)) row)) pivot_df"

definition total_of :: "(string \<times> real) list \<Rightarrow> real" where
  "total_of row = (case map_of row ''Total'' of None \<Rightarrow> 0 | Some v \<Rightarrow> v)"

text \<open>
  Rows in descending order of \<open>Total\<close>. The order of rows with equal totals is the
  library's; here they keep their order.
\<close>

definition sort_by_total :: "frame \<Rightarrow> frame" where
  "sort_by_total pivot_df = sort_key (\<lambda>(t, row). - total_of row) pivot_df"

definition trend_table :: "entry list \<Rightarrow> frame" where
  "trend_table df = sort_by_total (add_total (sort_index_columns (pivot_table df)))"

text \<open>
  \<^verbatim>\<open>generate_report\<close> returns the files it leaves and the table it exported, if any.
\<close>

definition generate_report :: "world \<Rightarrow> error + world \<times> frame option" where
  "generate_report w =
     (case output_dir w of
        None \<Rightarrow> Inr (w, None)
      | Some listing \<Rightarrow>
          let files = filter (\<lambda>(f, c). is_stats_file f) listing
          in if files = [] then Inr (w, None)
             else (case gather files [] of
                     Inl e \<Rightarrow> Inl e
                   | Inr df \<Rightarrow>
                       if df = [] then Inr (w, None)
                       else
                         let pivot_df = trend_table df;
                             out = AList.update ''trend_report.md'' (Table pivot_df)
                                     (AList.update ''trend_report.csv'' (Table pivot_df) listing)
                         in Inr (w\<lparr>output_dir := Some out\<rparr>, Some pivot_df)))"

section \<open>Dicts\<close>

lemma update_fresh:
  "k \<notin> fst ` set al \<Longrightarrow> AList.update k v al = al @ [(k, v)]"
  by (induction al) auto

lemma fold_update_fresh:
  "distinct (map fst xs) \<Longrightarrow> fst ` set xs \<inter> fst ` set acc = {} \<Longrightarrow>
   fold (\<lambda>(k, v). AList.update k (f v)) xs acc = acc @ map (\<lambda>(k, v). (k, f v)) xs"
proof (induction xs arbitrary: acc)
  case Nil
  then show ?case by simp
next
  case (Cons p xs)
  obtain k v where p: "p = (k, v)" by (cases p)
  from Cons.prems p have fresh: "k \<notin> fst ` set acc" by auto
  have "fst ` set xs \<inter> fst ` set (acc @ [(k, f v)]) = {}"
    using Cons.prems p by (auto simp: image_iff)
  with Cons.IH [of "acc @ [(k, f v)]"] Cons.prems
  have "fold (\<lambda>(k, v). AList.update k (f v)) xs (acc @ [(k, f v)]) =
        (acc @ [(k, f v)]) @ map (\<lambda>(k, v). (k, f v)) xs"
    by simp
  then show ?case using p fresh by (simp add: update_fresh)
qed

section \<open>Resolution of a raw topic\<close>






lemma map_extracted_topic_mismatch:
  "topics \<noteq> [] \<Longrightarrow> \<not> shapes_agree (e raw) (existing_embeddings_of topics) \<Longrightarrow>
   map_extracted_topic e sim topics raw = Inl ValueError"
  by (simp add: map_extracted_topic_def get_topic_embedding_def)





section \<open>Properties of the taxonomy operations\<close>

lemma add_new_topic_present:
  "topic_name \<in> fst ` set topics \<Longrightarrow> add_new_topic e now topic_name topics = topics"
  by (simp add: add_new_topic_def)

lemma add_new_topic_fresh:
  "topic_name \<notin> fst ` set topics \<Longrightarrow>
   add_new_topic e now topic_name topics =
     topics @ [(topic_name,
       \<lparr>examples = [topic_name], embedding = Array (e topic_name), created_at = now\<rparr>)]"
  by (simp add: add_new_topic_def get_topic_embedding_def update_fresh)

lemma add_new_topic_keys:
  "fst ` set (add_new_topic e now n topics) = insert n (fst ` set topics)"
  by (auto simp: add_new_topic_def AList.dom_update)

text \<open>
  C6. \<^verbatim>\<open>add_new_topic\<close> with a name that is already a key leaves the taxonomy as it
  is; with a new name it appends exactly one topic, whose examples are that one phrase,
  whose embedding is the phrase's embedding and whose timestamp is the clock reading of
  the call. A second call with the same name, at any later time, changes nothing.
\<close>

theorem add_new_topic_idempotent:
  "(n \<in> fst ` set topics \<longrightarrow> add_new_topic e now n topics = topics) \<and>
   (n \<notin> fst ` set topics \<longrightarrow>
      add_new_topic e now n topics =
        topics @ [(n, \<lparr>examples = [n], embedding = Array (e n), created_at = now\<rparr>)] \<and>
      length (add_new_topic e now n topics) = Suc (length topics)) \<and>
   add_new_topic e later n (add_new_topic e now n topics) = add_new_topic e now n topics"
proof -
  have "n \<in> fst ` set (add_new_topic e now n topics)"
    by (simp add: add_new_topic_keys)
  then have "add_new_topic e later n (add_new_topic e now n topics) = add_new_topic e now n topics"
    by (rule add_new_topic_present)
  then show ?thesis
    by (simp add: add_new_topic_present add_new_topic_fresh)
qed

theorem add_new_topic_idempotent_witness:
  "add_new_topic (\<lambda>s. [1, 0]) ''t0'' ''slow delivery'' [] =
     [(''slow delivery'',
       \<lparr>examples = [''slow delivery''], embedding = Array [1, 0], created_at = ''t0''\<rparr>)] \<and>
   add_new_topic (\<lambda>s. [1, 0]) ''t1'' ''slow delivery''
     [(''slow delivery'',
       \<lparr>examples = [''slow delivery''], embedding = Array [1, 0], created_at = ''t0''\<rparr>)] =
     [(''slow delivery'',
       \<lparr>examples = [''slow delivery''], embedding = Array [1, 0], created_at = ''t0''\<rparr>)]"
  using add_new_topic_idempotent [of "''slow delivery''" "[]" "\<lambda>s. [1, 0]" "''t0''" "''t1''"]
    add_new_topic_idempotent [of "''slow delivery''"
      "[(''slow delivery'',
         \<lparr>examples = [''slow delivery''], embedding = Array [1, 0], created_at = ''t0''\<rparr>)]"
      "\<lambda>s. [1, 0]" "''t1''" "''t1''"]
  by simp

section \<open>Persistence of the taxonomy\<close>

lemma serializable_topics_distinct:
  "distinct (map fst topics) \<Longrightarrow>
   serializable_topics topics =
     map (\<lambda>(topic, details).
            (topic, \<lparr>j_examples = examples details,
                     j_embedding = tolist (embedding details),
                     j_created_at = created_at details\<rparr>)) topics"
  unfolding serializable_topics_def
  using fold_update_fresh [of topics "[]"
      "\<lambda>details. \<lparr>j_examples = examples details,
                     j_embedding = tolist (embedding details),
                     j_created_at = created_at details\<rparr>"]
  by simp

lemma np_array_tolist [simp]: "np_array (tolist a) = a"
  by (cases a) (simp add: np_array_def)

lemma taxonomy_file_save [simp]:
  "taxonomy_file (save_taxonomy topics w) = Some (serializable_topics topics)"
  by (simp add: save_taxonomy_def Let_def split: option.splits)

lemma taxonomy_bak_save:
  "taxonomy_bak (save_taxonomy topics w) =
     (case taxonomy_file w of Some previous \<Rightarrow> Some previous | None \<Rightarrow> taxonomy_bak w)"
  by (simp add: save_taxonomy_def Let_def split: option.splits)

lemma dirs_save [simp]:
  "output_dir (save_taxonomy topics w) = output_dir w"
  "data_dir (save_taxonomy topics w) = data_dir w"
  by (simp_all add: save_taxonomy_def Let_def split: option.splits)

lemma load_save:
  assumes "distinct (map fst topics)"
  shows "load_taxonomy (save_taxonomy topics w) = topics"
proof -
  have "map ((\<lambda>(topic, details).
               (topic, \<lparr>examples = j_examples details,
                        embedding = np_array (j_embedding details),
                        created_at = j_created_at details\<rparr>)) \<circ>
             (\<lambda>(topic, details).
               (topic, \<lparr>j_examples = examples details,
                        j_embedding = tolist (embedding details),
                        j_created_at = created_at details\<rparr>))) topics = map id topics"
    by (rule map_cong) (auto simp: split_beta)
  then show ?thesis
    using assms by (simp add: load_taxonomy_def serializable_topics_distinct)
qed

text \<open>
  C4 (as amended). Every \<^verbatim>\<open>save_taxonomy\<close> writes the taxonomy file. When a
  persisted version exists it is first copied to the backup; when none exists the
  backup is left as it was. After two consecutive saves the backup holds what the first
  save wrote and the taxonomy file what the second wrote.
\<close>

theorem save_taxonomy_backup:
  "taxonomy_file (save_taxonomy topics w) = Some (serializable_topics topics) \<and>
   (taxonomy_file w = Some previous \<longrightarrow>
      taxonomy_bak (save_taxonomy topics w) = Some previous) \<and>
   (taxonomy_file w = None \<longrightarrow>
      taxonomy_bak (save_taxonomy topics w) = taxonomy_bak w) \<and>
   taxonomy_bak (save_taxonomy topics' (save_taxonomy topics w)) =
     Some (serializable_topics topics) \<and>
   taxonomy_file (save_taxonomy topics' (save_taxonomy topics w)) =
     Some (serializable_topics topics')"
  by (simp add: taxonomy_bak_save)

theorem save_taxonomy_backup_witness:
  "taxonomy_bak (save_taxonomy []
     \<lparr>data_dir = [], output_dir = None, taxonomy_file = Some [], taxonomy_bak = None\<rparr>) = Some [] \<and>
   taxonomy_bak (save_taxonomy []
     \<lparr>data_dir = [], output_dir = None, taxonomy_file = None, taxonomy_bak = Some []\<rparr>) = Some []"
  using save_taxonomy_backup [of "[]"
      "\<lparr>data_dir = [], output_dir = None, taxonomy_file = Some [], taxonomy_bak = None\<rparr>" "[]" "[]"]
    save_taxonomy_backup [of "[]"
      "\<lparr>data_dir = [], output_dir = None, taxonomy_file = None, taxonomy_bak = Some []\<rparr>" "[]" "[]"]
  by simp

text \<open>
  Not every save writes two files: the first save in a directory without a taxonomy
  file writes that file only.
\<close>

theorem save_taxonomy_first_save_counterexample:
  "taxonomy_file (save_taxonomy
     [(''slow delivery'',
       \<lparr>examples = [''slow delivery''], embedding = Array [1, 0], created_at = ''t0''\<rparr>)]
     \<lparr>data_dir = [], output_dir = None, taxonomy_file = None, taxonomy_bak = None\<rparr>) =
     Some [(''slow delivery'',
       \<lparr>j_examples = [''slow delivery''], j_embedding = [1, 0], j_created_at = ''t0''\<rparr>)] \<and>
   taxonomy_bak (save_taxonomy
     [(''slow delivery'',
       \<lparr>examples = [''slow delivery''], embedding = Array [1, 0], created_at = ''t0''\<rparr>)]
     \<lparr>data_dir = [], output_dir = None, taxonomy_file = None, taxonomy_bak = None\<rparr>) = None"
  by (simp add: save_taxonomy_def serializable_topics_def)

text \<open>
  C5. Saving a taxonomy and loading it into a fresh manager gives the same taxonomy
  back: the same names in the same order, the same examples, and embeddings that agree
  component by component (so within any tolerance, here \<open>10\<^sup>-\<^sup>6\<close>).
\<close>

theorem save_load_roundtrip:
  assumes "distinct (map fst topics)"
  shows "load_taxonomy (save_taxonomy topics w) = topics \<and>
         map fst (load_taxonomy (save_taxonomy topics w)) = map fst topics \<and>
         map (examples \<circ> snd) (load_taxonomy (save_taxonomy topics w)) =
           map (examples \<circ> snd) topics \<and>
         list_all2 (list_all2 (\<lambda>x y. \<bar>x - y\<bar> \<le> 1 / 10 ^ 6))
           (map (tolist \<circ> embedding \<circ> snd) (load_taxonomy (save_taxonomy topics w)))
           (map (tolist \<circ> embedding \<circ> snd) topics)"
proof -
  have "list_all2 (list_all2 (\<lambda>x y. \<bar>x - y\<bar> \<le> 1 / 10 ^ 6)) vs vs" for vs :: "real list list"
    by (simp add: list_all2_same)
  then show ?thesis using load_save [OF assms, of w] by simp
qed

theorem save_load_roundtrip_witness:
  "load_taxonomy (save_taxonomy
     [(''app crashes'', \<lparr>examples = [''app crashes''], embedding = Array [1, 0], created_at = ''t0''\<rparr>),
      (''slow delivery'', \<lparr>examples = [''slow delivery''], embedding = Array [0, 1], created_at = ''t1''\<rparr>)]
     \<lparr>data_dir = [], output_dir = None, taxonomy_file = None, taxonomy_bak = None\<rparr>) =
     [(''app crashes'', \<lparr>examples = [''app crashes''], embedding = Array [1, 0], created_at = ''t0''\<rparr>),
      (''slow delivery'', \<lparr>examples = [''slow delivery''], embedding = Array [0, 1], created_at = ''t1''\<rparr>)]"
  using save_load_roundtrip [of
     "[(''app crashes'', \<lparr>examples = [''app crashes''], embedding = Array [1, 0], created_at = ''t0''\<rparr>),
      (''slow delivery'', \<lparr>examples = [''slow delivery''], embedding = Array [0, 1], created_at = ''t1''\<rparr>)]"
     "\<lparr>data_dir = [], output_dir = None, taxonomy_file = None, taxonomy_bak = None\<rparr>"]
  by simp

section \<open>Extraction\<close>

lemma format_reviews_acc:
  "format_reviews acc rs =
     acc @ concat (map format_review (filter (\<lambda>r. 4 \<le> length (content r)) rs))"
  by (induction rs arbitrary: acc) (auto simp: not_less)

lemma format_review_nonempty: "format_review r \<noteq> []"
  by (simp add: format_review_def)

lemma format_reviews_empty_iff:
  "format_reviews [] rs = [] \<longleftrightarrow> (\<forall>r\<in>set rs. length (content r) < 4)"
  by (auto simp: format_reviews_acc format_review_nonempty filter_empty_conv not_le)

text \<open>
  C8. The prompt lists exactly the reviews of at least 4 characters. When none is
  left, \<^verbatim>\<open>extract_topics_batch\<close> returns the empty list without invoking the
  model; when the model call raises, it logs the error and returns the empty list;
  otherwise it returns what the model returned.
\<close>

theorem extract_topics_batch_degrades:
  "format_reviews [] batch =
     concat (map format_review (filter (\<lambda>r. 4 \<le> length (content r)) batch)) \<and>
   ((\<forall>r\<in>set batch. length (content r) < 4) \<longrightarrow>
      extract_topics_batch chain batch = ([], [])) \<and>
   ((\<exists>r\<in>set batch. 4 \<le> length (content r)) \<longrightarrow>
      (\<forall>e. chain (format_reviews [] batch) = Inl e \<longrightarrow>
         extract_topics_batch chain batch =
           ([], [ModelInvoked (format_reviews [] batch), ExtractionFailed e])) \<and>
      (\<forall>result. chain (format_reviews [] batch) = Inr result \<longrightarrow>
         extract_topics_batch chain batch =
           (result, [ModelInvoked (format_reviews [] batch)]))) \<and>
   (fst (extract_topics_batch chain batch) = [] \<longleftrightarrow>
      (\<forall>r\<in>set batch. length (content r) < 4) \<or>
      (\<exists>e. chain (format_reviews [] batch) = Inl e) \<or>
      chain (format_reviews [] batch) = Inr [])"
proof (intro conjI impI allI)
  show "format_reviews [] batch =
     concat (map format_review (filter (\<lambda>r. 4 \<le> length (content r)) batch))"
    by (simp add: format_reviews_acc)
next
  assume "\<forall>r\<in>set batch. length (content r) < 4"
  then have "format_reviews [] batch = []" by (simp add: format_reviews_empty_iff)
  then show "extract_topics_batch chain batch = ([], [])"
    by (simp add: extract_topics_batch_def)
next
  fix e
  assume "\<exists>r\<in>set batch. 4 \<le> length (content r)"
    and "chain (format_reviews [] batch) = Inl e"
  moreover from this have "format_reviews [] batch \<noteq> []"
    by (auto simp: format_reviews_empty_iff not_less)
  ultimately show "extract_topics_batch chain batch =
      ([], [ModelInvoked (format_reviews [] batch), ExtractionFailed e])"
    by (simp add: extract_topics_batch_def)
next
  fix result
  assume "\<exists>r\<in>set batch. 4 \<le> length (content r)"
    and "chain (format_reviews [] batch) = Inr result"
  moreover from this have "format_reviews [] batch \<noteq> []"
    by (auto simp: format_reviews_empty_iff not_less)
  ultimately show "extract_topics_batch chain batch =
      (result, [ModelInvoked (format_reviews [] batch)])"
    by (simp add: extract_topics_batch_def)
next
  show "fst (extract_topics_batch chain batch) = [] \<longleftrightarrow>
      (\<forall>r\<in>set batch. length (content r) < 4) \<or>
      (\<exists>e. chain (format_reviews [] batch) = Inl e) \<or>
      chain (format_reviews [] batch) = Inr []"
    by (cases "chain (format_reviews [] batch)")
       (auto simp: extract_topics_batch_def Let_def format_reviews_empty_iff)
qed

theorem extract_topics_batch_degrades_witness:
  "extract_topics_batch (\<lambda>p. Inr [\<lparr>item_reviewId = Some ''r1'', item_topic = Some ''slow delivery''\<rparr>])
     [\<lparr>reviewId = ''r0'', content = ''Bad'', score = 1, review_at = ''d''\<rparr>] = ([], []) \<and>
   extract_topics_batch (\<lambda>p. Inl (External ''timeout''))
     [\<lparr>reviewId = ''r0'', content = ''Bad'', score = 1, review_at = ''d''\<rparr>,
      \<lparr>reviewId = ''r1'', content = ''Late'', score = 2, review_at = ''d''\<rparr>] =
     ([], [ModelInvoked (format_review \<lparr>reviewId = ''r1'', content = ''Late'', score = 2, review_at = ''d''\<rparr>),
           ExtractionFailed (External ''timeout'')]) \<and>
   extract_topics_batch (\<lambda>p. Inr [\<lparr>item_reviewId = Some ''r1'', item_topic = Some ''slow delivery''\<rparr>])
     [\<lparr>reviewId = ''r0'', content = ''Bad'', score = 1, review_at = ''d''\<rparr>,
      \<lparr>reviewId = ''r1'', content = ''Late'', score = 2, review_at = ''d''\<rparr>] =
     ([\<lparr>item_reviewId = Some ''r1'', item_topic = Some ''slow delivery''\<rparr>],
      [ModelInvoked (format_review \<lparr>reviewId = ''r1'', content = ''Late'', score = 2, review_at = ''d''\<rparr>)])"
  using extract_topics_batch_degrades [of
      "[\<lparr>reviewId = ''r0'', content = ''Bad'', score = 1, review_at = ''d''\<rparr>]"
      "\<lambda>p. Inr [\<lparr>item_reviewId = Some ''r1'', item_topic = Some ''slow delivery''\<rparr>]"]
    extract_topics_batch_degrades [of
      "[\<lparr>reviewId = ''r0'', content = ''Bad'', score = 1, review_at = ''d''\<rparr>,
        \<lparr>reviewId = ''r1'', content = ''Late'', score = 2, review_at = ''d''\<rparr>]"
      "\<lambda>p. Inl (External ''timeout'')"]
    extract_topics_batch_degrades [of
      "[\<lparr>reviewId = ''r0'', content = ''Bad'', score = 1, review_at = ''d''\<rparr>,
        \<lparr>reviewId = ''r1'', content = ''Late'', score = 2, review_at = ''d''\<rparr>]"
      "\<lambda>p. Inr [\<lparr>item_reviewId = Some ''r1'', item_topic = Some ''slow delivery''\<rparr>]"]
  by simp

section \<open>The loops of the daily batch\<close>

lemma count_topic_sum:
  "sum_list (map snd (count_topic k daily)) = sum_list (map snd daily) + 1"
  unfolding count_topic_def by (induction daily) auto

lemma update_and_count_topics:
  "tm_topics (update_and_count env m st) =
     (if m \<in> fst ` set (tm_topics st) then tm_topics st
      else tm_topics st @
        [(m, \<lparr>examples = [m], embedding = Array (ext_embed env m),
              created_at = ext_now env (ticks st)\<rparr>)])"
  by (simp add: update_and_count_def Let_def add_new_topic_fresh)

lemma update_and_count_daily:
  "daily_topics (update_and_count env m st) = count_topic m (daily_topics st)"
  by (simp add: update_and_count_def Let_def)

lemma extractor_calls_append:
  "extractor_calls (xs @ ys) = extractor_calls xs @ extractor_calls ys"
  by (induction xs rule: extractor_calls.induct) auto

lemma update_and_count_calls:
  "extractor_calls (trace (update_and_count env m st)) = extractor_calls (trace st)"
  by (simp add: update_and_count_def Let_def extractor_calls_append)

subsection \<open>The inner loop\<close>

lemma map_and_count_topics:
  "map_and_count env items st = Inr st' \<Longrightarrow>
   \<exists>new. tm_topics st' = tm_topics st @ new \<and>
         (\<forall>(n, t)\<in>set new. examples t = [n] \<and> embedding t = Array (ext_embed env n))"
proof (induction items arbitrary: st)
  case Nil
  then show ?case by simp
next
  case (Cons it items)
  show ?case
  proof (cases "has_topic it")
    case False
    with Cons show ?thesis
      by (auto simp: has_topic_def split: option.splits)
  next
    case True
    then obtain raw where raw: "item_topic it = Some raw" "raw \<noteq> []"
      by (auto simp: has_topic_def split: option.splits)
    with Cons.prems obtain m where
      m: "map_extracted_topic (ext_embed env) (ext_cosine env) (tm_topics st) raw = Inr m"
      and run: "map_and_count env items (update_and_count env m st) = Inr st'"
      by (auto split: sum.splits)
    from Cons.IH [OF run] obtain new where
      new: "tm_topics st' = tm_topics (update_and_count env m st) @ new"
        "\<forall>(n, t)\<in>set new. examples t = [n] \<and> embedding t = Array (ext_embed env n)"
      by blast
    show ?thesis
    proof (cases "m \<in> fst ` set (tm_topics st)")
      case True
      with new show ?thesis by (auto simp: update_and_count_topics)
    next
      case False
      let ?t = "\<lparr>examples = [m], embedding = Array (ext_embed env m),
                 created_at = ext_now env (ticks st)\<rparr>"
      from False new have "tm_topics st' = tm_topics st @ ((m, ?t) # new)"
        by (simp add: update_and_count_topics)
      moreover have "\<forall>(n, t)\<in>set ((m, ?t) # new).
          examples t = [n] \<and> embedding t = Array (ext_embed env n)"
        using new(2) by simp
      ultimately show ?thesis by blast
    qed
  qed
qed

lemma update_and_count_distinct:
  "distinct (map fst (tm_topics st)) \<Longrightarrow>
   distinct (map fst (tm_topics (update_and_count env m st)))"
  by (auto simp: update_and_count_topics)

lemma map_and_count_distinct:
  "map_and_count env items st = Inr st' \<Longrightarrow> distinct (map fst (tm_topics st)) \<Longrightarrow>
   distinct (map fst (tm_topics st'))"
proof (induction items arbitrary: st)
  case Nil
  then show ?case by simp
next
  case (Cons it items)
  then show ?case
    by (auto split: option.splits if_splits sum.splits intro: update_and_count_distinct)
qed

lemma map_and_count_Cons_cases:
  assumes "map_and_count env (it # items) st = Inr st'"
  obtains (skip) "\<not> has_topic it" "map_and_count env items st = Inr st'"
  | (count) raw m where "has_topic it" "item_topic it = Some raw" "raw \<noteq> []"
      "map_extracted_topic (ext_embed env) (ext_cosine env) (tm_topics st) raw = Inr m"
      "map_and_count env items (update_and_count env m st) = Inr st'"
  using assms by (auto simp: has_topic_def split: option.splits if_splits sum.splits)

lemma map_and_count_sum:
  "map_and_count env items st = Inr st' \<Longrightarrow>
   sum_list (map snd (daily_topics st')) =
     sum_list (map snd (daily_topics st)) + int (length (filter has_topic items))"
proof (induction items arbitrary: st)
  case Nil
  then show ?case by simp
next
  case (Cons it items)
  from Cons.prems show ?case
  proof (cases rule: map_and_count_Cons_cases)
    case skip
    with Cons.IH [of st] show ?thesis by simp
  next
    case (count raw m)
    with Cons.IH [of "update_and_count env m st"] show ?thesis
      by (simp add: update_and_count_daily count_topic_sum)
  qed
qed

lemma map_and_count_calls:
  "map_and_count env items st = Inr st' \<Longrightarrow>
   extractor_calls (trace st') = extractor_calls (trace st)"
proof (induction items arbitrary: st)
  case Nil
  then show ?case by simp
next
  case (Cons it items)
  from Cons.prems show ?case
  proof (cases rule: map_and_count_Cons_cases)
    case skip
    with Cons.IH [of st] show ?thesis by simp
  next
    case (count raw m)
    with Cons.IH [of "update_and_count env m st"] show ?thesis
      by (simp add: update_and_count_calls)
  qed
qed

subsection \<open>The outer loop\<close>

lemma extract_topics_batch_calls [simp]:
  "extractor_calls (snd (extract_topics_batch chain batch)) = []"
  by (simp add: extract_topics_batch_def Let_def split: sum.splits)

lemma process_chunks_Cons_cases:
  assumes "process_chunks env reviews (i # starts) st = Inr st'"
  obtains st1 where
    "map_and_count env (fst (extract_topics_batch (ext_chain env) (take CHUNK_SIZE (drop i reviews))))
       (st\<lparr>trace := trace st @ [ExtractorCalled (take CHUNK_SIZE (drop i reviews))] @
              snd (extract_topics_batch (ext_chain env) (take CHUNK_SIZE (drop i reviews)))\<rparr>) = Inr st1"
    "process_chunks env reviews starts st1 = Inr st'"
  using assms by (auto simp: Let_def split: sum.splits)

lemma process_chunks_topics:
  "process_chunks env reviews starts st = Inr st' \<Longrightarrow>
   \<exists>new. tm_topics st' = tm_topics st @ new \<and>
         (\<forall>(n, t)\<in>set new. examples t = [n] \<and> embedding t = Array (ext_embed env n))"
proof (induction starts arbitrary: st)
  case Nil
  then show ?case by simp
next
  case (Cons i starts)
  from Cons.prems obtain st1 where
    inner: "map_and_count env (fst (extract_topics_batch (ext_chain env) (take CHUNK_SIZE (drop i reviews))))
       (st\<lparr>trace := trace st @ [ExtractorCalled (take CHUNK_SIZE (drop i reviews))] @
              snd (extract_topics_batch (ext_chain env) (take CHUNK_SIZE (drop i reviews)))\<rparr>) = Inr st1"
    and outer: "process_chunks env reviews starts st1 = Inr st'"
    by (rule process_chunks_Cons_cases)
  from map_and_count_topics [OF inner] obtain new1 where
    n1: "tm_topics st1 = tm_topics st @ new1"
      "\<forall>(n, t)\<in>set new1. examples t = [n] \<and> embedding t = Array (ext_embed env n)"
    by auto
  from Cons.IH [OF outer] obtain new2 where
    n2: "tm_topics st' = tm_topics st1 @ new2"
      "\<forall>(n, t)\<in>set new2. examples t = [n] \<and> embedding t = Array (ext_embed env n)"
    by auto
  from n1 n2 have "tm_topics st' = tm_topics st @ (new1 @ new2)" by simp
  moreover from n1(2) n2(2) have
    "\<forall>(n, t)\<in>set (new1 @ new2). examples t = [n] \<and> embedding t = Array (ext_embed env n)"
    by auto
  ultimately show ?case by blast
qed

lemma process_chunks_distinct:
  "process_chunks env reviews starts st = Inr st' \<Longrightarrow> distinct (map fst (tm_topics st)) \<Longrightarrow>
   distinct (map fst (tm_topics st'))"
proof (induction starts arbitrary: st)
  case Nil
  then show ?case by simp
next
  case (Cons i starts)
  from Cons.prems(1) obtain st1 where
    inner: "map_and_count env (fst (extract_topics_batch (ext_chain env) (take CHUNK_SIZE (drop i reviews))))
       (st\<lparr>trace := trace st @ [ExtractorCalled (take CHUNK_SIZE (drop i reviews))] @
              snd (extract_topics_batch (ext_chain env) (take CHUNK_SIZE (drop i reviews)))\<rparr>) = Inr st1"
    and outer: "process_chunks env reviews starts st1 = Inr st'"
    by (rule process_chunks_Cons_cases)
  from map_and_count_distinct [OF inner] Cons.prems(2)
  have "distinct (map fst (tm_topics st1))" by simp
  with Cons.IH [OF outer] show ?case .
qed

lemma process_chunks_calls:
  "process_chunks env reviews starts st = Inr st' \<Longrightarrow>
   extractor_calls (trace st') =
     extractor_calls (trace st) @ map (\<lambda>i. take CHUNK_SIZE (drop i reviews)) starts"
proof (induction starts arbitrary: st)
  case Nil
  then show ?case by simp
next
  case (Cons i starts)
  from Cons.prems obtain st1 where
    inner: "map_and_count env (fst (extract_topics_batch (ext_chain env) (take CHUNK_SIZE (drop i reviews))))
       (st\<lparr>trace := trace st @ [ExtractorCalled (take CHUNK_SIZE (drop i reviews))] @
              snd (extract_topics_batch (ext_chain env) (take CHUNK_SIZE (drop i reviews)))\<rparr>) = Inr st1"
    and outer: "process_chunks env reviews starts st1 = Inr st'"
    by (rule process_chunks_Cons_cases)
  from map_and_count_calls [OF inner]
  have "extractor_calls (trace st1) =
        extractor_calls (trace st) @ [take CHUNK_SIZE (drop i reviews)]"
    by (simp add: extractor_calls_append)
  with Cons.IH [OF outer] show ?case by simp
qed

lemma process_chunks_sum:
  "process_chunks env reviews starts st = Inr st' \<Longrightarrow>
   sum_list (map snd (daily_topics st')) =
     sum_list (map snd (daily_topics st)) +
     int (length (filter has_topic
       (concat (map (\<lambda>i. fst (extract_topics_batch (ext_chain env)
                                 (take CHUNK_SIZE (drop i reviews)))) starts))))"
proof (induction starts arbitrary: st)
  case Nil
  then show ?case by simp
next
  case (Cons i starts)
  from Cons.prems obtain st1 where
    inner: "map_and_count env (fst (extract_topics_batch (ext_chain env) (take CHUNK_SIZE (drop i reviews))))
       (st\<lparr>trace := trace st @ [ExtractorCalled (take CHUNK_SIZE (drop i reviews))] @
              snd (extract_topics_batch (ext_chain env) (take CHUNK_SIZE (drop i reviews)))\<rparr>) = Inr st1"
    and outer: "process_chunks env reviews starts st1 = Inr st'"
    by (rule process_chunks_Cons_cases)
  from map_and_count_sum [OF inner] Cons.IH [OF outer] show ?case by simp
qed

subsection \<open>Chunk starts\<close>

lemma div20_step: "i < stop \<Longrightarrow> Suc ((stop - (i + 20) + 19) div 20) = (stop - i + 19) div (20::nat)"
proof (cases "stop - i < 20")
  case True
  assume "i < stop"
  with True have "stop - (i + 20) = 0" "20 \<le> stop - i + 19" "stop - i + 19 < 40" by auto
  then show ?thesis by (simp add: div_nat_eqI)
next
  case False
  then have "stop - i + 19 = (stop - (i + 20) + 19) + 20" by simp
  then show ?thesis by (metis div_add_self2 zero_neq_numeral add.commute Suc_eq_plus1 div_add_self1)
qed

lemma py_range_length:
  "step = 20 \<Longrightarrow> length (py_range i stop step) = (stop - i + 19) div 20"
proof (induction i stop step rule: py_range.induct)
  case (1 i stop step)
  show ?case
  proof (cases "i < stop")
    case True
    with 1 have "length (py_range (i + step) stop step) = (stop - (i + step) + 19) div 20"
      by simp
    moreover have "py_range i stop step = i # py_range (i + step) stop step"
      using True 1(2) by (subst py_range.simps) simp
    ultimately show ?thesis using True 1(2) div20_step [of i stop] by simp
  next
    case False
    moreover have "py_range i stop step = []"
      using False by (subst py_range.simps) simp
    ultimately show ?thesis by simp
  qed
qed

lemma py_range_concat:
  "0 < step \<Longrightarrow>
   concat (map (\<lambda>j. take step (drop j xs)) (py_range i (length xs) step)) = drop i xs"
proof (induction i "length xs" step rule: py_range.induct)
  case (1 i step)
  show ?case
  proof (cases "i < length xs")
    case True
    with 1 have "concat (map (\<lambda>j. take step (drop j xs)) (py_range (i + step) (length xs) step))
        = drop (i + step) xs"
      by simp
    moreover have "take step (drop i xs) @ drop (i + step) xs = drop i xs"
      by (metis add.commute append_take_drop_id drop_drop)
    moreover have "py_range i (length xs) step = i # py_range (i + step) (length xs) step"
      using True 1(2) by (subst py_range.simps) simp
    ultimately show ?thesis by simp
  next
    case False
    moreover have "py_range i (length xs) step = []"
      using False by (subst py_range.simps) simp
    ultimately show ?thesis by simp
  qed
qed

lemma ceiling_div_20: "\<lceil>real n / 20\<rceil> = int ((n + 19) div 20)"
proof -
  have "\<lceil>real n / 20\<rceil> = \<lceil>of_int (int n) / (of_int 20 :: real)\<rceil>" by simp
  also have "\<dots> = - (- int n div 20)" by (rule ceiling_divide_eq_div)
  also have "\<dots> = int ((n + 19) div 20)" by (simp add: zdiv_int)
  finally show ?thesis .
qed

section \<open>Files kept by the visualizer\<close>

lemma stats_file_name_is_stats_file: "is_stats_file (stats_file_name d)"
  by (simp add: is_stats_file_def stats_file_name_def suffix_def)

lemma is_stats_file_not_heatmap: "is_stats_file f \<Longrightarrow> f \<noteq> ''topics_heatmap.png''"
  by (auto simp: is_stats_file_def)

lemma is_stats_file_not_barplot: "is_stats_file f \<Longrightarrow> f \<noteq> ''top_topics_'' @ d @ ''.png''"
  by (auto simp: is_stats_file_def prefix_def)

lemma savefig_keeps:
  "savefig name png w = Inr w' \<Longrightarrow>
   taxonomy_file w' = taxonomy_file w \<and> taxonomy_bak w' = taxonomy_bak w \<and>
   data_dir w' = data_dir w \<and>
   (\<forall>f. f \<noteq> name \<longrightarrow> map_of (output_files w') f = map_of (output_files w) f)"
  by (auto simp: savefig_def output_files_def update_conv' split: option.splits)

lemma plot_heatmap_keeps:
  "plot_heatmap env df w = Inr w' \<Longrightarrow>
   taxonomy_file w' = taxonomy_file w \<and> taxonomy_bak w' = taxonomy_bak w \<and>
   data_dir w' = data_dir w \<and>
   (\<forall>f. is_stats_file f \<longrightarrow> map_of (output_files w') f = map_of (output_files w) f)"
  using is_stats_file_not_heatmap
  by (auto simp: plot_heatmap_def split: if_splits sum.splits dest!: savefig_keeps)

lemma plot_top_topics_bar_keeps:
  "plot_top_topics_bar env df d w = Inr w' \<Longrightarrow>
   taxonomy_file w' = taxonomy_file w \<and> taxonomy_bak w' = taxonomy_bak w \<and>
   data_dir w' = data_dir w \<and>
   (\<forall>f. is_stats_file f \<longrightarrow> map_of (output_files w') f = map_of (output_files w) f)"
  using is_stats_file_not_barplot
  by (auto simp: plot_top_topics_bar_def split: if_splits sum.splits dest!: savefig_keeps)

lemma generate_visualizations_keeps:
  assumes "generate_visualizations env current_date w = (w', evs)"
  shows "taxonomy_file w' = taxonomy_file w \<and> taxonomy_bak w' = taxonomy_bak w \<and>
   data_dir w' = data_dir w \<and>
   (\<forall>f. is_stats_file f \<longrightarrow> map_of (output_files w') f = map_of (output_files w) f)"
proof (cases "load_stats_data w")
  case (Inl e)
  with assms show ?thesis by (simp add: generate_visualizations_def)
next
  case (Inr df)
  show ?thesis
  proof (cases "df_empty df")
    case True
    with Inr assms show ?thesis by (simp add: generate_visualizations_def)
  next
    case False
    show ?thesis
    proof (cases "plot_heatmap env df w")
      case (Inl e)
      with Inr False assms show ?thesis by (simp add: generate_visualizations_def)
    next
      case w1: (Inr w1)
      let ?d = "case current_date of None \<Rightarrow> latest_date df
                | Some d \<Rightarrow> if d \<noteq> [] then d else latest_date df"
      note k1 = plot_heatmap_keeps [OF w1]
      show ?thesis
      proof (cases "plot_top_topics_bar env df ?d w1")
        case (Inl e)
        with Inr False w1 assms have "w' = w1"
          by (simp add: generate_visualizations_def Let_def)
        with k1 show ?thesis by simp
      next
        case w2: (Inr w2)
        with Inr False w1 assms have "w' = w2"
          by (simp add: generate_visualizations_def Let_def)
        with k1 plot_top_topics_bar_keeps [OF w2] show ?thesis by simp
      qed
    qed
  qed
qed

lemma generate_visualizations_events:
  assumes "generate_visualizations env current_date w = (w', evs)"
  shows "evs = [PlotsSaved] \<or> evs = [VisualizationNoData] \<or> (\<exists>e. evs = [VisualizationFailed e])"
  using assms
  by (auto simp: generate_visualizations_def Let_def split: if_splits sum.splits)

section \<open>What a run leaves\<close>

lemma write_stats_keeps [simp]:
  "taxonomy_file (write_stats d daily w) = taxonomy_file w"
  "taxonomy_bak (write_stats d daily w) = taxonomy_bak w"
  "data_dir (write_stats d daily w) = data_dir w"
  "map_of (output_files (write_stats d daily w)) (stats_file_name d) = Some (StatsJson daily)"
  by (simp_all add: write_stats_def output_files_def update_conv')

lemma save_taxonomy_output [simp]:
  "output_files (save_taxonomy topics w) = output_files w"
  by (simp add: save_taxonomy_def output_files_def Let_def split: option.splits)

lemma process_daily_batch_skip:
  "map_of (data_dir w) (d @ ''.json'') = None \<Longrightarrow>
   process_daily_batch env d topics w =
     Inr (\<lparr>tm_topics = topics, daily_topics = [], ticks = 0, trace = [Skipped d]\<rparr>, w)"
  by (simp add: process_daily_batch_def)

lemma process_daily_batch_done:
  assumes "process_daily_batch env d topics w = Inr (st, w')"
    and "map_of (data_dir w) (d @ ''.json'') = Some reviews"
  obtains st0 evs where
    "process_chunks env reviews (py_range 0 (length reviews) CHUNK_SIZE)
       \<lparr>tm_topics = topics, daily_topics = [], ticks = 0, trace = []\<rparr> = Inr st0"
    "generate_visualizations env (Some d)
       (save_taxonomy (tm_topics st0) (write_stats d (daily_topics st0) w)) = (w', evs)"
    "st = st0\<lparr>trace := trace st0 @
              [StatsWritten (stats_file_name d), TaxonomySaved, VisualizerInvoked] @ evs\<rparr>"
proof -
  from assms obtain st0 where
    st0: "process_chunks env reviews (py_range 0 (length reviews) CHUNK_SIZE)
       \<lparr>tm_topics = topics, daily_topics = [], ticks = 0, trace = []\<rparr> = Inr st0"
    by (auto simp: process_daily_batch_def split: sum.splits)
  let ?vis = "generate_visualizations env (Some d)
       (save_taxonomy (tm_topics st0) (write_stats d (daily_topics st0) w))"
  from assms st0 have "w' = fst ?vis"
    and "st = st0\<lparr>trace := trace st0 @
              [StatsWritten (stats_file_name d), TaxonomySaved, VisualizerInvoked] @ snd ?vis\<rparr>"
    by (simp_all add: process_daily_batch_def Let_def)
  moreover from this have "?vis = (w', snd ?vis)" by simp
  ultimately show thesis using st0 that by blast
qed

lemma process_daily_batch_completes:
  assumes "map_of (data_dir w) (d @ ''.json'') = Some reviews"
    and "process_chunks env reviews (py_range 0 (length reviews) CHUNK_SIZE)
       \<lparr>tm_topics = topics, daily_topics = [], ticks = 0, trace = []\<rparr> = Inr st0"
  shows "\<exists>st w'. process_daily_batch env d topics w = Inr (st, w')"
  using assms by (simp add: process_daily_batch_def Let_def)

section \<open>Events of the loops\<close>

lemma update_and_count_trace:
  "set (trace (update_and_count env m st)) \<subseteq> set (trace st) \<union> range NewTopic"
  by (auto simp: update_and_count_def Let_def)

lemma map_and_count_trace:
  "map_and_count env items st = Inr st' \<Longrightarrow>
   set (trace st') \<subseteq> set (trace st) \<union> range NewTopic"
proof (induction items arbitrary: st)
  case Nil
  then show ?case by simp
next
  case (Cons it items)
  from Cons.prems show ?case
  proof (cases rule: map_and_count_Cons_cases)
    case skip
    with Cons.IH [of st] show ?thesis by simp
  next
    case (count raw m)
    with Cons.IH [of "update_and_count env m st"] update_and_count_trace [of env m st]
    show ?thesis by blast
  qed
qed

lemma extract_topics_batch_trace:
  "set (snd (extract_topics_batch chain batch)) \<subseteq> range ModelInvoked \<union> range ExtractionFailed"
  by (auto simp: extract_topics_batch_def Let_def split: sum.splits)

lemma process_chunks_trace:
  "process_chunks env reviews starts st = Inr st' \<Longrightarrow>
   set (trace st') \<subseteq> set (trace st) \<union>
     (range ExtractorCalled \<union> range ModelInvoked \<union> range ExtractionFailed \<union> range NewTopic)"
proof (induction starts arbitrary: st)
  case Nil
  then show ?case by simp
next
  case (Cons i starts)
  let ?b = "take CHUNK_SIZE (drop i reviews)"
  let ?x = "extract_topics_batch (ext_chain env) ?b"
  from Cons.prems obtain st1 where
    inner: "map_and_count env (fst ?x)
       (st\<lparr>trace := trace st @ [ExtractorCalled ?b] @ snd ?x\<rparr>) = Inr st1"
    and outer: "process_chunks env reviews starts st1 = Inr st'"
    by (rule process_chunks_Cons_cases)
  from map_and_count_trace [OF inner] extract_topics_batch_trace [of "ext_chain env" ?b]
  have "set (trace st1) \<subseteq> set (trace st) \<union>
     (range ExtractorCalled \<union> range ModelInvoked \<union> range ExtractionFailed \<union> range NewTopic)"
    by auto
  with Cons.IH [OF outer] show ?case by blast
qed

lemma process_chunks_no_persistence:
  assumes "process_chunks env reviews starts st = Inr st'" and "trace st = []"
  shows "TaxonomySaved \<notin> set (trace st')" "VisualizerInvoked \<notin> set (trace st')"
    "StatsWritten f \<notin> set (trace st')"
  using process_chunks_trace [OF assms(1)] assms(2) by auto

section \<open>Keys of the counts\<close>

lemma count_topic_keys: "fst ` set (count_topic m daily) = insert m (fst ` set daily)"
  by (simp add: count_topic_def dom_update)

lemma update_and_count_keys:
  "fst ` set (daily_topics st) \<subseteq> fst ` set (tm_topics st) \<Longrightarrow>
   fst ` set (daily_topics (update_and_count env m st)) \<subseteq>
     fst ` set (tm_topics (update_and_count env m st))"
  by (auto simp: update_and_count_daily update_and_count_topics count_topic_keys)

lemma map_and_count_keys:
  "map_and_count env items st = Inr st' \<Longrightarrow>
   fst ` set (daily_topics st) \<subseteq> fst ` set (tm_topics st) \<Longrightarrow>
   fst ` set (daily_topics st') \<subseteq> fst ` set (tm_topics st')"
proof (induction items arbitrary: st)
  case Nil
  then show ?case by simp
next
  case (Cons it items)
  from Cons.prems(1) show ?case
  proof (cases rule: map_and_count_Cons_cases)
    case skip
    with Cons.IH [of st] Cons.prems(2) show ?thesis by simp
  next
    case (count raw m)
    with Cons.IH [of "update_and_count env m st"] update_and_count_keys [OF Cons.prems(2)]
    show ?thesis by simp
  qed
qed

lemma process_chunks_keys:
  "process_chunks env reviews starts st = Inr st' \<Longrightarrow>
   fst ` set (daily_topics st) \<subseteq> fst ` set (tm_topics st) \<Longrightarrow>
   fst ` set (daily_topics st') \<subseteq> fst ` set (tm_topics st')"
proof (induction starts arbitrary: st)
  case Nil
  then show ?case by simp
next
  case (Cons i starts)
  let ?b = "take CHUNK_SIZE (drop i reviews)"
  let ?x = "extract_topics_batch (ext_chain env) ?b"
  from Cons.prems(1) obtain st1 where
    inner: "map_and_count env (fst ?x)
       (st\<lparr>trace := trace st @ [ExtractorCalled ?b] @ snd ?x\<rparr>) = Inr st1"
    and outer: "process_chunks env reviews starts st1 = Inr st'"
    by (rule process_chunks_Cons_cases)
  from map_and_count_keys [OF inner] Cons.prems(2)
  have "fst ` set (daily_topics st1) \<subseteq> fst ` set (tm_topics st1)" by simp
  with Cons.IH [OF outer] show ?case .
qed

section \<open>Chunks by number\<close>

lemma upt_Suc_shift: "[0..<Suc m] = 0 # map Suc [0..<m]"
  by (simp add: upt_conv_Cons map_Suc_upt del: upt_Suc)

lemma py_range_20:
  "step = 20 \<Longrightarrow>
   py_range i stop step = map (\<lambda>k. i + 20 * k) [0..<(stop - i + 19) div 20]"
proof (induction i stop step rule: py_range.induct)
  case (1 i stop step)
  show ?case
  proof (cases "i < stop")
    case True
    let ?m = "(stop - (i + 20) + 19) div 20"
    from True 1 have "py_range (i + step) stop step = map (\<lambda>k. i + step + 20 * k) [0..<?m]"
      by simp
    moreover have "py_range i stop step = i # py_range (i + step) stop step"
      using True 1(2) by (subst py_range.simps) simp
    ultimately have "py_range i stop step = i # map (\<lambda>k. i + 20 + 20 * k) [0..<?m]"
      using 1(2) by simp
    also have "\<dots> = map (\<lambda>k. i + 20 * k) (0 # map Suc [0..<?m])"
      by (simp add: comp_def)
    also have "0 # map Suc [0..<?m] = [0..<Suc ?m]"
      by (rule upt_Suc_shift [symmetric])
    also have "Suc ?m = (stop - i + 19) div 20"
      by (rule div20_step [OF True])
    finally show ?thesis .
  next
    case False
    moreover have "py_range i stop step = []"
      using False by (subst py_range.simps) simp
    ultimately show ?thesis by simp
  qed
qed

lemma chunk_starts:
  "py_range 0 n CHUNK_SIZE = map (\<lambda>k. 20 * k) [0..<(n + 19) div 20]"
  using py_range_20 [of CHUNK_SIZE 0 n] by (simp add: CHUNK_SIZE_def)

lemma chunks_concat:
  "concat (map (\<lambda>i. take CHUNK_SIZE (drop i reviews)) (py_range 0 (length reviews) CHUNK_SIZE))
     = reviews"
  using py_range_concat [of CHUNK_SIZE reviews 0] by (simp add: CHUNK_SIZE_def)

section \<open>Runs that complete\<close>

text \<open>
  A run raises only when the stacked embeddings do not fit the embedded phrase. With
  an embedding model of one dimension \<open>width\<close> and a taxonomy stored in that dimension,
  no such call raises.
\<close>

lemma map_extracted_topic_total:
  assumes "0 < width" "length (embed_query raw) = width"
    and "\<forall>(n, t)\<in>set topics. length (tolist (embedding t)) = width"
  shows "\<exists>m. map_extracted_topic embed_query cosine_similarity topics raw = Inr m"
proof -
  from assms have "shapes_agree (embed_query raw) (existing_embeddings_of topics)"
    by (auto simp: shapes_agree_def existing_embeddings_of_def list_all_iff)
  then show ?thesis
    by (simp add: map_extracted_topic_def get_topic_embedding_def Let_def)
qed

lemma new_topics_dim:
  assumes "\<forall>(n, t)\<in>set topics. length (tolist (embedding t)) = width"
    and "\<forall>(n, t)\<in>set new. examples t = [n] \<and> embedding t = Array (ext_embed env n)"
    and "\<forall>s. length (ext_embed env s) = width"
  shows "\<forall>(n, t)\<in>set (topics @ new). length (tolist (embedding t)) = width"
  using assms by fastforce

lemma map_and_count_total:
  assumes "0 < width" "\<forall>s. length (ext_embed env s) = width"
  shows "\<forall>(n, t)\<in>set (tm_topics st). length (tolist (embedding t)) = width \<Longrightarrow>
         \<exists>st'. map_and_count env items st = Inr st'"
proof (induction items arbitrary: st)
  case Nil
  then show ?case by simp
next
  case (Cons it items)
  show ?case
  proof (cases "has_topic it")
    case False
    with Cons.IH [OF Cons.prems] show ?thesis
      by (auto simp: has_topic_def split: option.splits)
  next
    case True
    then obtain raw where raw: "item_topic it = Some raw" "raw \<noteq> []"
      by (auto simp: has_topic_def split: option.splits)
    from map_extracted_topic_total [of width "ext_embed env" raw "tm_topics st" "ext_cosine env"]
      assms Cons.prems
    obtain m where
      m: "map_extracted_topic (ext_embed env) (ext_cosine env) (tm_topics st) raw = Inr m"
      by auto
    have "\<forall>(n, t)\<in>set (tm_topics (update_and_count env m st)).
            length (tolist (embedding t)) = width"
      using Cons.prems assms(2) by (auto simp: update_and_count_topics)
    from Cons.IH [OF this] raw m show ?thesis by simp
  qed
qed

lemma process_chunks_total:
  assumes "0 < width" "\<forall>s. length (ext_embed env s) = width"
  shows "\<forall>(n, t)\<in>set (tm_topics st). length (tolist (embedding t)) = width \<Longrightarrow>
         \<exists>st'. process_chunks env reviews starts st = Inr st'"
proof (induction starts arbitrary: st)
  case Nil
  then show ?case by simp
next
  case (Cons i starts)
  let ?b = "take CHUNK_SIZE (drop i reviews)"
  let ?x = "extract_topics_batch (ext_chain env) ?b"
  let ?st = "st\<lparr>trace := trace st @ [ExtractorCalled ?b] @ snd ?x\<rparr>"
  from Cons.prems have "\<forall>(n, t)\<in>set (tm_topics ?st). length (tolist (embedding t)) = width"
    by simp
  from map_and_count_total [OF assms this] obtain st1 where
    st1: "map_and_count env (fst ?x) ?st = Inr st1" by blast
  from map_and_count_topics [OF st1] obtain new where
    new: "tm_topics st1 = tm_topics st @ new"
      "\<forall>(n, t)\<in>set new. examples t = [n] \<and> embedding t = Array (ext_embed env n)"
    by auto
  from new_topics_dim [OF Cons.prems new(2) assms(2)] new(1)
  have "\<forall>(n, t)\<in>set (tm_topics st1). length (tolist (embedding t)) = width" by simp
  from Cons.IH [OF this] st1 show ?case by (simp add: Let_def)
qed

lemma process_daily_batch_total:
  assumes "0 < width" "\<forall>s. length (ext_embed env s) = width"
    and "\<forall>(n, t)\<in>set topics. length (tolist (embedding t)) = width"
  shows "\<exists>st w'. process_daily_batch env d topics w = Inr (st, w')"
proof (cases "map_of (data_dir w) (d @ ''.json'')")
  case None
  then show ?thesis by (simp add: process_daily_batch_skip)
next
  case (Some reviews)
  from process_chunks_total [OF assms(1,2), of
      "\<lparr>tm_topics = topics, daily_topics = [], ticks = 0, trace = []\<rparr>" reviews
      "py_range 0 (length reviews) CHUNK_SIZE"] assms(3)
  obtain st0 where "process_chunks env reviews (py_range 0 (length reviews) CHUNK_SIZE)
       \<lparr>tm_topics = topics, daily_topics = [], ticks = 0, trace = []\<rparr> = Inr st0"
    by auto
  with Some show ?thesis by (rule process_daily_batch_completes)
qed

section \<open>The taxonomy after a run\<close>

lemma process_daily_batch_topics:
  assumes "process_daily_batch env d topics w = Inr (st, w')"
  shows "\<exists>new. tm_topics st = topics @ new \<and>
           (\<forall>(n, t)\<in>set new. examples t = [n] \<and> embedding t = Array (ext_embed env n))"
proof (cases "map_of (data_dir w) (d @ ''.json'')")
  case None
  with assms have "tm_topics st = topics @ []"
    by (auto simp: process_daily_batch_skip)
  then show ?thesis by fastforce
next
  case (Some reviews)
  with assms obtain st0 evs where
    loop: "process_chunks env reviews (py_range 0 (length reviews) CHUNK_SIZE)
       \<lparr>tm_topics = topics, daily_topics = [], ticks = 0, trace = []\<rparr> = Inr st0"
    and st: "st = st0\<lparr>trace := trace st0 @
              [StatsWritten (stats_file_name d), TaxonomySaved, VisualizerInvoked] @ evs\<rparr>"
    by (rule process_daily_batch_done)
  from process_chunks_topics [OF loop] show ?thesis by (simp add: st)
qed

lemma process_daily_batch_distinct:
  assumes "process_daily_batch env d topics w = Inr (st, w')"
    and "distinct (map fst topics)"
  shows "distinct (map fst (tm_topics st))"
proof (cases "map_of (data_dir w) (d @ ''.json'')")
  case None
  with assms show ?thesis by (auto simp: process_daily_batch_skip)
next
  case (Some reviews)
  with assms(1) obtain st0 evs where
    loop: "process_chunks env reviews (py_range 0 (length reviews) CHUNK_SIZE)
       \<lparr>tm_topics = topics, daily_topics = [], ticks = 0, trace = []\<rparr> = Inr st0"
    and st: "st = st0\<lparr>trace := trace st0 @
              [StatsWritten (stats_file_name d), TaxonomySaved, VisualizerInvoked] @ evs\<rparr>"
    by (rule process_daily_batch_done)
  from process_chunks_distinct [OF loop] assms(2) show ?thesis by (simp add: st)
qed

lemma map_of_append_kept: "map_of xs k = Some v \<Longrightarrow> map_of (xs @ ys) k = Some v"
  by (simp add: map_add_Some_iff)

text \<open>
  The loops do not draw: their result does not depend on the plots.
\<close>

lemma update_and_count_plots:
  "update_and_count (env\<lparr>ext_heatmap := heatmap, ext_barplot := barplot\<rparr>) m st =
   update_and_count env m st"
  by (simp add: update_and_count_def)

lemma map_and_count_plots:
  "map_and_count (env\<lparr>ext_heatmap := heatmap, ext_barplot := barplot\<rparr>) items st =
   map_and_count env items st"
  by (induction items arbitrary: st)
     (simp_all add: update_and_count_plots split: option.splits sum.splits)

lemma process_chunks_plots:
  "process_chunks (env\<lparr>ext_heatmap := heatmap, ext_barplot := barplot\<rparr>) reviews starts st =
   process_chunks env reviews starts st"
  by (induction starts arbitrary: st)
     (simp_all add: map_and_count_plots Let_def split: sum.splits)

section \<open>A run on two reviews\<close>

text \<open>
  One day with two reviews and a taxonomy that knows \<^verbatim>\<open>slow delivery\<close>. The model
  extracts \<^verbatim>\<open>late delivery\<close>, whose embedding \<open>[1, 0]\<close> is that of
  \<^verbatim>\<open>slow delivery\<close>, and \<^verbatim>\<open>app crashes\<close>, whose embedding \<open>[0, 1]\<close> is orthogonal to
  it: the scores are 1 and 0, which the library computes without rounding on these
  vectors. Drawing the heatmap fails.
\<close>

lemma example_chunks: "py_range 0 (Suc (Suc 0)) 20 = [0]"
  by (simp add: py_range.simps)

lemma example_run:
  "process_daily_batch
     \<lparr>ext_embed = (\<lambda>s. if s = ''app crashes'' then [0, 1] else [1, 0]),
      ext_cosine = (\<lambda>x rows. map (\<lambda>r. if r = x then 1 else 0) rows),
      ext_now = (\<lambda>k. ''t1''),
      ext_chain = (\<lambda>p. Inr [\<lparr>item_reviewId = Some ''r1'', item_topic = Some ''late delivery''\<rparr>,
                              \<lparr>item_reviewId = Some ''r2'', item_topic = Some ''app crashes''\<rparr>]),
      ext_heatmap = (\<lambda>df. Inl (External ''no display'')),
      ext_barplot = (\<lambda>d df. Inr ''png'')\<rparr>
     ''2024-06-01''
     [(''slow delivery'',
       \<lparr>examples = [''slow delivery''], embedding = Array [1, 0], created_at = ''t0''\<rparr>)]
     \<lparr>data_dir = [(''2024-06-01.json'',
        [\<lparr>reviewId = ''r1'', content = ''Parcel came late'', score = 2, review_at = ''2024-06-01''\<rparr>,
         \<lparr>reviewId = ''r2'', content = ''Crashes on start'', score = 1, review_at = ''2024-06-01''\<rparr>])],
      output_dir = None, taxonomy_file = None, taxonomy_bak = None\<rparr> =
   Inr (\<lparr>tm_topics =
           [(''slow delivery'',
             \<lparr>examples = [''slow delivery''], embedding = Array [1, 0], created_at = ''t0''\<rparr>),
            (''app crashes'',
             \<lparr>examples = [''app crashes''], embedding = Array [0, 1], created_at = ''t1''\<rparr>)],
         daily_topics = [(''slow delivery'', 1), (''app crashes'', 1)],
         ticks = 1,
         trace =
           [ExtractorCalled
              [\<lparr>reviewId = ''r1'', content = ''Parcel came late'', score = 2, review_at = ''2024-06-01''\<rparr>,
               \<lparr>reviewId = ''r2'', content = ''Crashes on start'', score = 1, review_at = ''2024-06-01''\<rparr>],
            ModelInvoked (format_reviews []
              [\<lparr>reviewId = ''r1'', content = ''Parcel came late'', score = 2, review_at = ''2024-06-01''\<rparr>,
               \<lparr>reviewId = ''r2'', content = ''Crashes on start'', score = 1, review_at = ''2024-06-01''\<rparr>]),
            NewTopic ''app crashes'',
            StatsWritten ''stats_2024-06-01.json'', TaxonomySaved, VisualizerInvoked,
            VisualizationFailed (External ''no display'')]\<rparr>,
        \<lparr>data_dir = [(''2024-06-01.json'',
           [\<lparr>reviewId = ''r1'', content = ''Parcel came late'', score = 2, review_at = ''2024-06-01''\<rparr>,
            \<lparr>reviewId = ''r2'', content = ''Crashes on start'', score = 1, review_at = ''2024-06-01''\<rparr>])],
         output_dir = Some [(''stats_2024-06-01.json'',
           StatsJson [(''slow delivery'', 1), (''app crashes'', 1)])],
         taxonomy_file = Some
           [(''slow delivery'',
             \<lparr>j_examples = [''slow delivery''], j_embedding = [1, 0], j_created_at = ''t0''\<rparr>),
            (''app crashes'',
             \<lparr>j_examples = [''app crashes''], j_embedding = [0, 1], j_created_at = ''t1''\<rparr>)],
         taxonomy_bak = None\<rparr>)"
  by (simp add: process_daily_batch_def example_chunks Let_def CHUNK_SIZE_def
        extract_topics_batch_def format_review_def
        map_extracted_topic_def get_topic_embedding_def shapes_agree_def
        existing_embeddings_of_def
        SIMILARITY_THRESHOLD_def update_and_count_def add_new_topic_def count_topic_def
        write_stats_def output_files_def stats_file_name_def save_taxonomy_def
        serializable_topics_def generate_visualizations_def load_stats_data_def
        is_stats_file_def suffix_to_prefix date_of_def df_empty_def plot_heatmap_def)

section \<open>Chunks and counts of a daily batch\<close>

lemma extractor_calls_visualizer:
  "generate_visualizations env current_date w = (w', evs) \<Longrightarrow> extractor_calls evs = []"
  by (auto dest: generate_visualizations_events)

text \<open>
  C2. For a day whose data file holds \<open>N\<close> reviews, a run of
  \<^verbatim>\<open>process_daily_batch\<close> that completes has called the extractor on the chunks
  \<open>reviews[20k : 20k + 20]\<close> for \<open>k = 0, 1, \<dots>\<close> in this order, which are
  \<open>\<lceil>N / 20\<rceil>\<close> calls that together cover the reviews; the counts of the written
  \<^verbatim>\<open>stats_<date>.json\<close> sum to the number of items with a topic that is not empty
  among the items these calls returned, and every counted name is a key of the
  taxonomy. The run completes whenever the embedding model and the stored embeddings
  have one dimension.
\<close>

theorem process_daily_batch_chunks:
  assumes "map_of (data_dir w) (date_str @ ''.json'') = Some reviews"
  shows "(0 < width \<and> (\<forall>s. length (ext_embed env s) = width) \<and>
          (\<forall>(n, t)\<in>set topics. length (tolist (embedding t)) = width) \<longrightarrow>
          (\<exists>st w'. process_daily_batch env date_str topics w = Inr (st, w'))) \<and>
         (\<forall>st w'. process_daily_batch env date_str topics w = Inr (st, w') \<longrightarrow>
            extractor_calls (trace st) =
              map (\<lambda>k. take 20 (drop (20 * k) reviews)) [0..<(length reviews + 19) div 20] \<and>
            int (length (extractor_calls (trace st))) = \<lceil>real (length reviews) / 20\<rceil> \<and>
            concat (extractor_calls (trace st)) = reviews \<and>
            sum_list (map snd (daily_topics st)) =
              int (length (filter has_topic
                (concat (map (\<lambda>batch. fst (extract_topics_batch (ext_chain env) batch))
                           (extractor_calls (trace st)))))) \<and>
            fst ` set (daily_topics st) \<subseteq> fst ` set (tm_topics st) \<and>
            map_of (output_files w') (stats_file_name date_str) =
              Some (StatsJson (daily_topics st)))"
proof (intro conjI allI impI)
  assume "0 < width \<and> (\<forall>s. length (ext_embed env s) = width) \<and>
          (\<forall>(n, t)\<in>set topics. length (tolist (embedding t)) = width)"
  then show "\<exists>st w'. process_daily_batch env date_str topics w = Inr (st, w')"
    using process_daily_batch_total [of width env topics date_str w] by blast
next
  fix st w'
  assume run: "process_daily_batch env date_str topics w = Inr (st, w')"
  let ?starts = "py_range 0 (length reviews) CHUNK_SIZE"
  let ?init = "\<lparr>tm_topics = topics, daily_topics = [], ticks = 0, trace = []\<rparr>"
  from run assms obtain st0 evs where
    loop: "process_chunks env reviews ?starts ?init = Inr st0"
    and vis: "generate_visualizations env (Some date_str)
       (save_taxonomy (tm_topics st0) (write_stats date_str (daily_topics st0) w)) = (w', evs)"
    and st: "st = st0\<lparr>trace := trace st0 @
              [StatsWritten (stats_file_name date_str), TaxonomySaved, VisualizerInvoked] @ evs\<rparr>"
    by (rule process_daily_batch_done)
  have calls: "extractor_calls (trace st) = map (\<lambda>i. take CHUNK_SIZE (drop i reviews)) ?starts"
    using process_chunks_calls [OF loop] extractor_calls_visualizer [OF vis]
    by (simp add: st extractor_calls_append)
  then show chunks: "extractor_calls (trace st) =
      map (\<lambda>k. take 20 (drop (20 * k) reviews)) [0..<(length reviews + 19) div 20]"
    unfolding chunk_starts by (simp add: comp_def CHUNK_SIZE_def)
  show "int (length (extractor_calls (trace st))) = \<lceil>real (length reviews) / 20\<rceil>"
    by (simp add: chunks ceiling_div_20)
  show "concat (extractor_calls (trace st)) = reviews"
    by (simp only: calls chunks_concat)
  have counts: "daily_topics st = daily_topics st0"
    by (simp add: st)
  have returned: "map (\<lambda>batch. fst (extract_topics_batch (ext_chain env) batch))
        (extractor_calls (trace st)) =
      map (\<lambda>i. fst (extract_topics_batch (ext_chain env) (take CHUNK_SIZE (drop i reviews))))
        ?starts"
    unfolding calls by (simp add: comp_def)
  show "sum_list (map snd (daily_topics st)) =
      int (length (filter has_topic
        (concat (map (\<lambda>batch. fst (extract_topics_batch (ext_chain env) batch))
                   (extractor_calls (trace st))))))"
    unfolding counts returned using process_chunks_sum [OF loop] by simp
  show "fst ` set (daily_topics st) \<subseteq> fst ` set (tm_topics st)"
    using process_chunks_keys [OF loop] by (simp add: st)
  show "map_of (output_files w') (stats_file_name date_str) = Some (StatsJson (daily_topics st))"
    using generate_visualizations_keeps [OF vis] stats_file_name_is_stats_file [of date_str]
    by (simp add: st)
qed

theorem process_daily_batch_chunks_witness:
  "\<exists>st w'.
     process_daily_batch
       \<lparr>ext_embed = (\<lambda>s. if s = ''app crashes'' then [0, 1] else [1, 0]),
        ext_cosine = (\<lambda>x rows. map (\<lambda>r. if r = x then 1 else 0) rows),
        ext_now = (\<lambda>k. ''t1''),
        ext_chain = (\<lambda>p. Inr [\<lparr>item_reviewId = Some ''r1'', item_topic = Some ''late delivery''\<rparr>,
                                \<lparr>item_reviewId = Some ''r2'', item_topic = Some ''app crashes''\<rparr>]),
        ext_heatmap = (\<lambda>df. Inl (External ''no display'')),
        ext_barplot = (\<lambda>d df. Inr ''png'')\<rparr>
       ''2024-06-01''
       [(''slow delivery'',
         \<lparr>examples = [''slow delivery''], embedding = Array [1, 0], created_at = ''t0''\<rparr>)]
       \<lparr>data_dir = [(''2024-06-01.json'',
          [\<lparr>reviewId = ''r1'', content = ''Parcel came late'', score = 2, review_at = ''2024-06-01''\<rparr>,
           \<lparr>reviewId = ''r2'', content = ''Crashes on start'', score = 1, review_at = ''2024-06-01''\<rparr>])],
        output_dir = None, taxonomy_file = None, taxonomy_bak = None\<rparr> = Inr (st, w') \<and>
     length (extractor_calls (trace st)) = 1 \<and>
     sum_list (map snd (daily_topics st)) = 2 \<and>
     map_of (output_files w') ''stats_2024-06-01.json'' = Some (StatsJson (daily_topics st))"
  using process_daily_batch_chunks [where width = 2 and date_str = "''2024-06-01''"
      and reviews =
         "[\<lparr>reviewId = ''r1'', content = ''Parcel came late'', score = 2, review_at = ''2024-06-01''\<rparr>,
           \<lparr>reviewId = ''r2'', content = ''Crashes on start'', score = 1, review_at = ''2024-06-01''\<rparr>]"
      and env =
         "\<lparr>ext_embed = (\<lambda>s. if s = ''app crashes'' then [0, 1] else [1, 0]),
           ext_cosine = (\<lambda>x rows. map (\<lambda>r. if r = x then 1 else 0) rows),
           ext_now = (\<lambda>k. ''t1''),
           ext_chain = (\<lambda>p. Inr [\<lparr>item_reviewId = Some ''r1'', item_topic = Some ''late delivery''\<rparr>,
                                   \<lparr>item_reviewId = Some ''r2'', item_topic = Some ''app crashes''\<rparr>]),
           ext_heatmap = (\<lambda>df. Inl (External ''no display'')),
           ext_barplot = (\<lambda>d df. Inr ''png'')\<rparr>"
      and topics =
         "[(''slow delivery'',
            \<lparr>examples = [''slow delivery''], embedding = Array [1, 0], created_at = ''t0''\<rparr>)]"
      and w =
         "\<lparr>data_dir = [(''2024-06-01.json'',
            [\<lparr>reviewId = ''r1'', content = ''Parcel came late'', score = 2, review_at = ''2024-06-01''\<rparr>,
             \<lparr>reviewId = ''r2'', content = ''Crashes on start'', score = 1, review_at = ''2024-06-01''\<rparr>])],
           output_dir = None, taxonomy_file = None, taxonomy_bak = None\<rparr>"]
  by (simp add: example_run stats_file_name_def output_files_def)

section \<open>Examples and embeddings of the topics\<close>

text \<open>
  C3. The examples of a topic are not extended. A topic is created with its own name
  as only example and the embedding of that name, and no step of a batch changes a
  topic that is in the taxonomy: when a phrase resolves to the name of an existing
  topic, \<open>update_and_count\<close> leaves the taxonomy as it is and only counts the name.
  After a run that completes, the taxonomy is the one before the run, entry by entry,
  followed by the topics the run created.
\<close>

theorem examples_and_embedding_fixed:
  "(m \<in> fst ` set (tm_topics cur) \<longrightarrow>
      tm_topics (update_and_count env m cur) = tm_topics cur) \<and>
   (m \<notin> fst ` set (tm_topics cur) \<longrightarrow>
      tm_topics (update_and_count env m cur) =
        tm_topics cur @
        [(m, \<lparr>examples = [m], embedding = Array (ext_embed env m),
               created_at = ext_now env (ticks cur)\<rparr>)]) \<and>
   (\<forall>st w'. process_daily_batch env d topics w = Inr (st, w') \<longrightarrow>
      (\<exists>new. tm_topics st = topics @ new \<and>
         (\<forall>(n, t)\<in>set new. examples t = [n] \<and> embedding t = Array (ext_embed env n))))"
  using process_daily_batch_topics [of env d topics w]
  by (simp add: update_and_count_topics)

theorem examples_and_embedding_fixed_witness:
  "\<exists>st w'.
     process_daily_batch
       \<lparr>ext_embed = (\<lambda>s. if s = ''app crashes'' then [0, 1] else [1, 0]),
        ext_cosine = (\<lambda>x rows. map (\<lambda>r. if r = x then 1 else 0) rows),
        ext_now = (\<lambda>k. ''t1''),
        ext_chain = (\<lambda>p. Inr [\<lparr>item_reviewId = Some ''r1'', item_topic = Some ''late delivery''\<rparr>,
                                \<lparr>item_reviewId = Some ''r2'', item_topic = Some ''app crashes''\<rparr>]),
        ext_heatmap = (\<lambda>df. Inl (External ''no display'')),
        ext_barplot = (\<lambda>d df. Inr ''png'')\<rparr>
       ''2024-06-01''
       [(''slow delivery'',
         \<lparr>examples = [''slow delivery''], embedding = Array [1, 0], created_at = ''t0''\<rparr>)]
       \<lparr>data_dir = [(''2024-06-01.json'',
          [\<lparr>reviewId = ''r1'', content = ''Parcel came late'', score = 2, review_at = ''2024-06-01''\<rparr>,
           \<lparr>reviewId = ''r2'', content = ''Crashes on start'', score = 1, review_at = ''2024-06-01''\<rparr>])],
        output_dir = None, taxonomy_file = None, taxonomy_bak = None\<rparr> = Inr (st, w') \<and>
     tm_topics st =
       [(''slow delivery'',
         \<lparr>examples = [''slow delivery''], embedding = Array [1, 0], created_at = ''t0''\<rparr>)] @
       [(''app crashes'',
         \<lparr>examples = [''app crashes''], embedding = Array [0, 1], created_at = ''t1''\<rparr>)]"
  using examples_and_embedding_fixed [where m = "''slow delivery''" and d = "''2024-06-01''"
      and cur = "\<lparr>tm_topics = [(''slow delivery'',
            \<lparr>examples = [''slow delivery''], embedding = Array [1, 0], created_at = ''t0''\<rparr>)],
          daily_topics = [], ticks = 0, trace = []\<rparr>"
      and env =
         "\<lparr>ext_embed = (\<lambda>s. if s = ''app crashes'' then [0, 1] else [1, 0]),
           ext_cosine = (\<lambda>x rows. map (\<lambda>r. if r = x then 1 else 0) rows),
           ext_now = (\<lambda>k. ''t1''),
           ext_chain = (\<lambda>p. Inr [\<lparr>item_reviewId = Some ''r1'', item_topic = Some ''late delivery''\<rparr>,
                                   \<lparr>item_reviewId = Some ''r2'', item_topic = Some ''app crashes''\<rparr>]),
           ext_heatmap = (\<lambda>df. Inl (External ''no display'')),
           ext_barplot = (\<lambda>d df. Inr ''png'')\<rparr>"
      and topics =
         "[(''slow delivery'',
            \<lparr>examples = [''slow delivery''], embedding = Array [1, 0], created_at = ''t0''\<rparr>)]"
      and w =
         "\<lparr>data_dir = [(''2024-06-01.json'',
            [\<lparr>reviewId = ''r1'', content = ''Parcel came late'', score = 2, review_at = ''2024-06-01''\<rparr>,
             \<lparr>reviewId = ''r2'', content = ''Crashes on start'', score = 1, review_at = ''2024-06-01''\<rparr>])],
           output_dir = None, taxonomy_file = None, taxonomy_bak = None\<rparr>"]
  by (simp add: example_run)

text \<open>
  The phrase \<^verbatim>\<open>late delivery\<close> resolves to the topic \<^verbatim>\<open>slow delivery\<close>, and the
  run leaves that topic with the one example it had: the phrase is counted, not kept.
\<close>

theorem examples_not_appended_counterexample:
  "map_extracted_topic (\<lambda>s. if s = ''app crashes'' then [0, 1] else [1, 0])
     (\<lambda>x rows. map (\<lambda>r. if r = x then 1 else 0) rows)
     [(''slow delivery'',
       \<lparr>examples = [''slow delivery''], embedding = Array [1, 0], created_at = ''t0''\<rparr>)]
     ''late delivery'' = Inr ''slow delivery'' \<and>
   map_and_count
     \<lparr>ext_embed = (\<lambda>s. if s = ''app crashes'' then [0, 1] else [1, 0]),
      ext_cosine = (\<lambda>x rows. map (\<lambda>r. if r = x then 1 else 0) rows),
      ext_now = (\<lambda>k. ''t1''),
      ext_chain = (\<lambda>p. Inr [\<lparr>item_reviewId = Some ''r1'', item_topic = Some ''late delivery''\<rparr>]),
      ext_heatmap = (\<lambda>df. Inl (External ''no display'')),
      ext_barplot = (\<lambda>d df. Inr ''png'')\<rparr>
     [\<lparr>item_reviewId = Some ''r1'', item_topic = Some ''late delivery''\<rparr>]
     \<lparr>tm_topics =
        [(''slow delivery'',
          \<lparr>examples = [''slow delivery''], embedding = Array [1, 0], created_at = ''t0''\<rparr>)],
      daily_topics = [], ticks = 0, trace = []\<rparr> =
   Inr \<lparr>tm_topics =
          [(''slow delivery'',
            \<lparr>examples = [''slow delivery''], embedding = Array [1, 0], created_at = ''t0''\<rparr>)],
        daily_topics = [(''slow delivery'', 1)], ticks = 0, trace = []\<rparr> \<and>
   ''late delivery'' \<notin> set (examples (snd (hd (tm_topics (fst (projr
     (process_daily_batch
       \<lparr>ext_embed = (\<lambda>s. if s = ''app crashes'' then [0, 1] else [1, 0]),
        ext_cosine = (\<lambda>x rows. map (\<lambda>r. if r = x then 1 else 0) rows),
        ext_now = (\<lambda>k. ''t1''),
        ext_chain = (\<lambda>p. Inr [\<lparr>item_reviewId = Some ''r1'', item_topic = Some ''late delivery''\<rparr>,
                                \<lparr>item_reviewId = Some ''r2'', item_topic = Some ''app crashes''\<rparr>]),
        ext_heatmap = (\<lambda>df. Inl (External ''no display'')),
        ext_barplot = (\<lambda>d df. Inr ''png'')\<rparr>
       ''2024-06-01''
       [(''slow delivery'',
         \<lparr>examples = [''slow delivery''], embedding = Array [1, 0], created_at = ''t0''\<rparr>)]
       \<lparr>data_dir = [(''2024-06-01.json'',
          [\<lparr>reviewId = ''r1'', content = ''Parcel came late'', score = 2, review_at = ''2024-06-01''\<rparr>,
           \<lparr>reviewId = ''r2'', content = ''Crashes on start'', score = 1, review_at = ''2024-06-01''\<rparr>])],
        output_dir = None, taxonomy_file = None, taxonomy_bak = None\<rparr>)))))))"
  by (simp add: example_run map_extracted_topic_def get_topic_embedding_def shapes_agree_def
        existing_embeddings_of_def
        SIMILARITY_THRESHOLD_def update_and_count_def count_topic_def)

section \<open>Growth of the taxonomy\<close>

text \<open>
  C7. The names of the taxonomy stay distinct and no topic is lost or renamed:
  \<^verbatim>\<open>add_new_topic\<close> only appends, so does every sequence of resolutions and
  additions of the inner loop, and after a run that completes the taxonomy starts with
  the taxonomy before the run; its keys include the keys before the run, and every
  name is still bound to the topic it was bound to.
\<close>

theorem taxonomy_grows:
  "(\<exists>new. add_new_topic embed_query now name topics = topics @ new) \<and>
   (distinct (map fst topics) \<longrightarrow>
      distinct (map fst (add_new_topic embed_query now name topics))) \<and>
   (\<forall>items cur st. map_and_count env items cur = Inr st \<longrightarrow>
      (\<exists>new. tm_topics st = tm_topics cur @ new) \<and>
      (distinct (map fst (tm_topics cur)) \<longrightarrow> distinct (map fst (tm_topics st)))) \<and>
   (\<forall>st w'. process_daily_batch env d topics w = Inr (st, w') \<longrightarrow>
      (\<exists>new. tm_topics st = topics @ new) \<and>
      fst ` set topics \<subseteq> fst ` set (tm_topics st) \<and>
      (\<forall>k t. map_of topics k = Some t \<longrightarrow> map_of (tm_topics st) k = Some t) \<and>
      (distinct (map fst topics) \<longrightarrow> distinct (map fst (tm_topics st))))"
proof (intro conjI allI impI)
  show "\<exists>new. add_new_topic embed_query now name topics = topics @ new"
    by (cases "name \<in> fst ` set topics")
       (simp_all add: add_new_topic_present add_new_topic_fresh)
  show "distinct (map fst (add_new_topic embed_query now name topics))"
    if "distinct (map fst topics)"
    using that
    by (cases "name \<in> fst ` set topics")
       (simp_all add: add_new_topic_present add_new_topic_fresh)
next
  fix items cur st
  assume run: "map_and_count env items cur = Inr st"
  from map_and_count_topics [OF run] show "\<exists>new. tm_topics st = tm_topics cur @ new"
    by blast
  show "distinct (map fst (tm_topics st))" if "distinct (map fst (tm_topics cur))"
    using run that by (rule map_and_count_distinct)
next
  fix st w'
  assume run: "process_daily_batch env d topics w = Inr (st, w')"
  from process_daily_batch_topics [OF run] obtain new where
    new: "tm_topics st = topics @ new" by blast
  then show "\<exists>new. tm_topics st = topics @ new" ..
  from new show "fst ` set topics \<subseteq> fst ` set (tm_topics st)" by auto
  show "map_of (tm_topics st) k = Some t" if "map_of topics k = Some t" for k t
    using that by (simp add: new map_of_append_kept)
  show "distinct (map fst (tm_topics st))" if "distinct (map fst topics)"
    using run that by (rule process_daily_batch_distinct)
qed

theorem taxonomy_grows_witness:
  "\<exists>st w'.
     process_daily_batch
       \<lparr>ext_embed = (\<lambda>s. if s = ''app crashes'' then [0, 1] else [1, 0]),
        ext_cosine = (\<lambda>x rows. map (\<lambda>r. if r = x then 1 else 0) rows),
        ext_now = (\<lambda>k. ''t1''),
        ext_chain = (\<lambda>p. Inr [\<lparr>item_reviewId = Some ''r1'', item_topic = Some ''late delivery''\<rparr>,
                                \<lparr>item_reviewId = Some ''r2'', item_topic = Some ''app crashes''\<rparr>]),
        ext_heatmap = (\<lambda>df. Inl (External ''no display'')),
        ext_barplot = (\<lambda>d df. Inr ''png'')\<rparr>
       ''2024-06-01''
       [(''slow delivery'',
         \<lparr>examples = [''slow delivery''], embedding = Array [1, 0], created_at = ''t0''\<rparr>)]
       \<lparr>data_dir = [(''2024-06-01.json'',
          [\<lparr>reviewId = ''r1'', content = ''Parcel came late'', score = 2, review_at = ''2024-06-01''\<rparr>,
           \<lparr>reviewId = ''r2'', content = ''Crashes on start'', score = 1, review_at = ''2024-06-01''\<rparr>])],
        output_dir = None, taxonomy_file = None, taxonomy_bak = None\<rparr> = Inr (st, w') \<and>
     map fst (tm_topics st) = [''slow delivery'', ''app crashes''] \<and>
     distinct (map fst (tm_topics st)) \<and>
     map_of (tm_topics st) ''slow delivery'' =
       Some \<lparr>examples = [''slow delivery''], embedding = Array [1, 0], created_at = ''t0''\<rparr>"
  using taxonomy_grows [where d = "''2024-06-01''" and name = "''app crashes''"
      and now = "''t1''" and embed_query = "\<lambda>s. if s = ''app crashes'' then [0, 1] else [1, 0]"
      and env =
         "\<lparr>ext_embed = (\<lambda>s. if s = ''app crashes'' then [0, 1] else [1, 0]),
           ext_cosine = (\<lambda>x rows. map (\<lambda>r. if r = x then 1 else 0) rows),
           ext_now = (\<lambda>k. ''t1''),
           ext_chain = (\<lambda>p. Inr [\<lparr>item_reviewId = Some ''r1'', item_topic = Some ''late delivery''\<rparr>,
                                   \<lparr>item_reviewId = Some ''r2'', item_topic = Some ''app crashes''\<rparr>]),
           ext_heatmap = (\<lambda>df. Inl (External ''no display'')),
           ext_barplot = (\<lambda>d df. Inr ''png'')\<rparr>"
      and topics =
         "[(''slow delivery'',
            \<lparr>examples = [''slow delivery''], embedding = Array [1, 0], created_at = ''t0''\<rparr>)]"
      and w =
         "\<lparr>data_dir = [(''2024-06-01.json'',
            [\<lparr>reviewId = ''r1'', content = ''Parcel came late'', score = 2, review_at = ''2024-06-01''\<rparr>,
             \<lparr>reviewId = ''r2'', content = ''Crashes on start'', score = 1, review_at = ''2024-06-01''\<rparr>])],
           output_dir = None, taxonomy_file = None, taxonomy_bak = None\<rparr>"]
  by (simp add: example_run)

section \<open>Persistence before visualization\<close>

text \<open>
  C9. In a run of \<^verbatim>\<open>process_daily_batch\<close> on an existing data file that completes,
  the stats file is written, then the taxonomy is saved (once), then the visualizer is
  invoked, on the files as these two steps left them. Whatever the plots do, the
  visualizer returns: it ends with the plots saved, with no data or with the failure
  it caught, and the files it returns still hold the stats of the day and the saved
  taxonomy. No outcome of the plots makes the run fail.
\<close>

theorem process_daily_batch_persists_first:
  assumes "map_of (data_dir w) (date_str @ ''.json'') = Some reviews"
  shows "(\<forall>st w'. process_daily_batch env date_str topics w = Inr (st, w') \<longrightarrow>
           (\<exists>pre evs.
              trace st = pre @ [StatsWritten (stats_file_name date_str), TaxonomySaved,
                                VisualizerInvoked] @ evs \<and>
              TaxonomySaved \<notin> set pre \<and> VisualizerInvoked \<notin> set pre \<and>
              generate_visualizations env (Some date_str)
                (save_taxonomy (tm_topics st) (write_stats date_str (daily_topics st) w)) =
                (w', evs) \<and>
              (evs = [PlotsSaved] \<or> evs = [VisualizationNoData] \<or>
               (\<exists>e. evs = [VisualizationFailed e]))) \<and>
           map_of (output_files w') (stats_file_name date_str) =
             Some (StatsJson (daily_topics st)) \<and>
           taxonomy_file w' = Some (serializable_topics (tm_topics st))) \<and>
         (\<forall>heatmap barplot.
            (\<exists>st w'. process_daily_batch env date_str topics w = Inr (st, w')) \<longrightarrow>
            (\<exists>st w'. process_daily_batch
                        (env\<lparr>ext_heatmap := heatmap, ext_barplot := barplot\<rparr>)
                        date_str topics w = Inr (st, w')))"
proof (intro conjI allI impI)
  fix st w'
  assume run: "process_daily_batch env date_str topics w = Inr (st, w')"
  let ?init = "\<lparr>tm_topics = topics, daily_topics = [], ticks = 0, trace = []\<rparr>"
  from run assms obtain st0 evs where
    loop: "process_chunks env reviews (py_range 0 (length reviews) CHUNK_SIZE) ?init = Inr st0"
    and vis: "generate_visualizations env (Some date_str)
       (save_taxonomy (tm_topics st0) (write_stats date_str (daily_topics st0) w)) = (w', evs)"
    and st: "st = st0\<lparr>trace := trace st0 @
              [StatsWritten (stats_file_name date_str), TaxonomySaved, VisualizerInvoked] @ evs\<rparr>"
    by (rule process_daily_batch_done)
  have "trace st = trace st0 @ [StatsWritten (stats_file_name date_str), TaxonomySaved,
                                VisualizerInvoked] @ evs"
    by (simp add: st)
  moreover have "TaxonomySaved \<notin> set (trace st0)" "VisualizerInvoked \<notin> set (trace st0)"
    using process_chunks_no_persistence [OF loop] by simp_all
  moreover have "generate_visualizations env (Some date_str)
      (save_taxonomy (tm_topics st) (write_stats date_str (daily_topics st) w)) = (w', evs)"
    using vis by (simp add: st)
  moreover note generate_visualizations_events [OF vis]
  ultimately show "\<exists>pre evs.
      trace st = pre @ [StatsWritten (stats_file_name date_str), TaxonomySaved,
                        VisualizerInvoked] @ evs \<and>
      TaxonomySaved \<notin> set pre \<and> VisualizerInvoked \<notin> set pre \<and>
      generate_visualizations env (Some date_str)
        (save_taxonomy (tm_topics st) (write_stats date_str (daily_topics st) w)) = (w', evs) \<and>
      (evs = [PlotsSaved] \<or> evs = [VisualizationNoData] \<or> (\<exists>e. evs = [VisualizationFailed e]))"
    by blast
  show "map_of (output_files w') (stats_file_name date_str) = Some (StatsJson (daily_topics st))"
    using generate_visualizations_keeps [OF vis] stats_file_name_is_stats_file [of date_str]
    by (simp add: st)
  show "taxonomy_file w' = Some (serializable_topics (tm_topics st))"
    using generate_visualizations_keeps [OF vis] by (simp add: st taxonomy_file_save)
next
  fix heatmap barplot
  assume "\<exists>st w'. process_daily_batch env date_str topics w = Inr (st, w')"
  then obtain st w' where "process_daily_batch env date_str topics w = Inr (st, w')" by blast
  with assms obtain st0 where
    "process_chunks env reviews (py_range 0 (length reviews) CHUNK_SIZE)
       \<lparr>tm_topics = topics, daily_topics = [], ticks = 0, trace = []\<rparr> = Inr st0"
    by (auto elim: process_daily_batch_done)
  then have "process_chunks (env\<lparr>ext_heatmap := heatmap, ext_barplot := barplot\<rparr>) reviews
       (py_range 0 (length reviews) CHUNK_SIZE)
       \<lparr>tm_topics = topics, daily_topics = [], ticks = 0, trace = []\<rparr> = Inr st0"
    by (simp add: process_chunks_plots)
  with assms show "\<exists>st w'. process_daily_batch
      (env\<lparr>ext_heatmap := heatmap, ext_barplot := barplot\<rparr>) date_str topics w = Inr (st, w')"
    by (rule process_daily_batch_completes)
qed

theorem process_daily_batch_persists_first_witness:
  "\<exists>st w'.
     process_daily_batch
       \<lparr>ext_embed = (\<lambda>s. if s = ''app crashes'' then [0, 1] else [1, 0]),
        ext_cosine = (\<lambda>x rows. map (\<lambda>r. if r = x then 1 else 0) rows),
        ext_now = (\<lambda>k. ''t1''),
        ext_chain = (\<lambda>p. Inr [\<lparr>item_reviewId = Some ''r1'', item_topic = Some ''late delivery''\<rparr>,
                                \<lparr>item_reviewId = Some ''r2'', item_topic = Some ''app crashes''\<rparr>]),
        ext_heatmap = (\<lambda>df. Inl (External ''no display'')),
        ext_barplot = (\<lambda>d df. Inr ''png'')\<rparr>
       ''2024-06-01''
       [(''slow delivery'',
         \<lparr>examples = [''slow delivery''], embedding = Array [1, 0], created_at = ''t0''\<rparr>)]
       \<lparr>data_dir = [(''2024-06-01.json'',
          [\<lparr>reviewId = ''r1'', content = ''Parcel came late'', score = 2, review_at = ''2024-06-01''\<rparr>,
           \<lparr>reviewId = ''r2'', content = ''Crashes on start'', score = 1, review_at = ''2024-06-01''\<rparr>])],
        output_dir = None, taxonomy_file = None, taxonomy_bak = None\<rparr> = Inr (st, w') \<and>
     drop 3 (trace st) =
       [StatsWritten ''stats_2024-06-01.json'', TaxonomySaved, VisualizerInvoked,
        VisualizationFailed (External ''no display'')] \<and>
     map_of (output_files w') ''stats_2024-06-01.json'' = Some (StatsJson (daily_topics st)) \<and>
     taxonomy_file w' = Some (serializable_topics (tm_topics st))"
  using process_daily_batch_persists_first [where date_str = "''2024-06-01''"
      and reviews =
         "[\<lparr>reviewId = ''r1'', content = ''Parcel came late'', score = 2, review_at = ''2024-06-01''\<rparr>,
           \<lparr>reviewId = ''r2'', content = ''Crashes on start'', score = 1, review_at = ''2024-06-01''\<rparr>]"
      and env =
         "\<lparr>ext_embed = (\<lambda>s. if s = ''app crashes'' then [0, 1] else [1, 0]),
           ext_cosine = (\<lambda>x rows. map (\<lambda>r. if r = x then 1 else 0) rows),
           ext_now = (\<lambda>k. ''t1''),
           ext_chain = (\<lambda>p. Inr [\<lparr>item_reviewId = Some ''r1'', item_topic = Some ''late delivery''\<rparr>,
                                   \<lparr>item_reviewId = Some ''r2'', item_topic = Some ''app crashes''\<rparr>]),
           ext_heatmap = (\<lambda>df. Inl (External ''no display'')),
           ext_barplot = (\<lambda>d df. Inr ''png'')\<rparr>"
      and topics =
         "[(''slow delivery'',
            \<lparr>examples = [''slow delivery''], embedding = Array [1, 0], created_at = ''t0''\<rparr>)]"
      and w =
         "\<lparr>data_dir = [(''2024-06-01.json'',
            [\<lparr>reviewId = ''r1'', content = ''Parcel came late'', score = 2, review_at = ''2024-06-01''\<rparr>,
             \<lparr>reviewId = ''r2'', content = ''Crashes on start'', score = 1, review_at = ''2024-06-01''\<rparr>])],
           output_dir = None, taxonomy_file = None, taxonomy_bak = None\<rparr>"]
  by (simp add: example_run serializable_topics_def output_files_def stats_file_name_def)

section \<open>Trend report\<close>

text \<open>
  C10. The report on three days of stats in which \<^verbatim>\<open>slow delivery\<close> is counted 2
  times on the first day, not at all on the second and 5 times on the third. When the
  stats file of the second day is the empty dict (a day on which no topic was
  extracted), \<^verbatim>\<open>generate_report\<close> exports no column for that day: the row of
  \<^verbatim>\<open>slow delivery\<close> is \<open>[2, 5]\<close> with total 7, and not \<open>[2, 0, 5]\<close>. The frame
  that \<^verbatim>\<open>load_stats_data\<close> of the visualizer builds from the same files keeps the
  second day. When another topic is counted on the second day, the exported row is
  \<open>[2, 0, 5]\<close> with total 7, and the rows are in descending order of their totals.
\<close>

theorem generate_report_empty_day:
  "generate_report
     \<lparr>data_dir = [],
      output_dir = Some
        [(''stats_2024-06-01.json'', StatsJson [(''slow delivery'', 2), (''app crashes'', 1)]),
         (''stats_2024-06-02.json'', StatsJson []),
         (''stats_2024-06-03.json'', StatsJson [(''slow delivery'', 5), (''app crashes'', 1)])],
      taxonomy_file = None, taxonomy_bak = None\<rparr> =
   Inr (\<lparr>data_dir = [],
         output_dir = Some
           [(''stats_2024-06-01.json'', StatsJson [(''slow delivery'', 2), (''app crashes'', 1)]),
            (''stats_2024-06-02.json'', StatsJson []),
            (''stats_2024-06-03.json'', StatsJson [(''slow delivery'', 5), (''app crashes'', 1)]),
            (''trend_report.csv'', Table
              [(''slow delivery'', [(''2024-06-01'', 2), (''2024-06-03'', 5), (''Total'', 7)]),
               (''app crashes'', [(''2024-06-01'', 1), (''2024-06-03'', 1), (''Total'', 2)])]),
            (''trend_report.md'', Table
              [(''slow delivery'', [(''2024-06-01'', 2), (''2024-06-03'', 5), (''Total'', 7)]),
               (''app crashes'', [(''2024-06-01'', 1), (''2024-06-03'', 1), (''Total'', 2)])])],
         taxonomy_file = None, taxonomy_bak = None\<rparr>,
        Some
          [(''slow delivery'', [(''2024-06-01'', 2), (''2024-06-03'', 5), (''Total'', 7)]),
           (''app crashes'', [(''2024-06-01'', 1), (''2024-06-03'', 1), (''Total'', 2)])]) \<and>
   load_stats_data
     \<lparr>data_dir = [],
      output_dir = Some
        [(''stats_2024-06-01.json'', StatsJson [(''slow delivery'', 2), (''app crashes'', 1)]),
         (''stats_2024-06-02.json'', StatsJson []),
         (''stats_2024-06-03.json'', StatsJson [(''slow delivery'', 5), (''app crashes'', 1)])],
      taxonomy_file = None, taxonomy_bak = None\<rparr> =
   Inr [(''2024-06-01'', [(''slow delivery'', 2), (''app crashes'', 1)]),
        (''2024-06-02'', []),
        (''2024-06-03'', [(''slow delivery'', 5), (''app crashes'', 1)])] \<and>
   trend_table
     [\<lparr>Date = ''2024-06-01'', Topic = ''slow delivery'', Count = 2\<rparr>,
      \<lparr>Date = ''2024-06-01'', Topic = ''app crashes'', Count = 1\<rparr>,
      \<lparr>Date = ''2024-06-02'', Topic = ''app crashes'', Count = 3\<rparr>,
      \<lparr>Date = ''2024-06-03'', Topic = ''slow delivery'', Count = 5\<rparr>,
      \<lparr>Date = ''2024-06-03'', Topic = ''app crashes'', Count = 1\<rparr>] =
   [(''slow delivery'',
     [(''2024-06-01'', 2), (''2024-06-02'', 0), (''2024-06-03'', 5), (''Total'', 7)]),
    (''app crashes'',
     [(''2024-06-01'', 1), (''2024-06-02'', 3), (''2024-06-03'', 1), (''Total'', 5)])]"
proof (intro conjI)
  show "generate_report
     \<lparr>data_dir = [],
      output_dir = Some
        [(''stats_2024-06-01.json'', StatsJson [(''slow delivery'', 2), (''app crashes'', 1)]),
         (''stats_2024-06-02.json'', StatsJson []),
         (''stats_2024-06-03.json'', StatsJson [(''slow delivery'', 5), (''app crashes'', 1)])],
      taxonomy_file = None, taxonomy_bak = None\<rparr> =
   Inr (\<lparr>data_dir = [],
         output_dir = Some
           [(''stats_2024-06-01.json'', StatsJson [(''slow delivery'', 2), (''app crashes'', 1)]),
            (''stats_2024-06-02.json'', StatsJson []),
            (''stats_2024-06-03.json'', StatsJson [(''slow delivery'', 5), (''app crashes'', 1)]),
            (''trend_report.csv'', Table
              [(''slow delivery'', [(''2024-06-01'', 2), (''2024-06-03'', 5), (''Total'', 7)]),
               (''app crashes'', [(''2024-06-01'', 1), (''2024-06-03'', 1), (''Total'', 2)])]),
            (''trend_report.md'', Table
              [(''slow delivery'', [(''2024-06-01'', 2), (''2024-06-03'', 5), (''Total'', 7)]),
               (''app crashes'', [(''2024-06-01'', 1), (''2024-06-03'', 1), (''Total'', 2)])])],
         taxonomy_file = None, taxonomy_bak = None\<rparr>,
        Some
          [(''slow delivery'', [(''2024-06-01'', 2), (''2024-06-03'', 5), (''Total'', 7)]),
           (''app crashes'', [(''2024-06-01'', 1), (''2024-06-03'', 1), (''Total'', 2)])])"
    by (simp add: generate_report_def is_stats_file_def suffix_to_prefix date_of_def Let_def
        trend_table_def pivot_table_def sort_index_columns_def add_total_def sort_by_total_def
        total_of_def cell_def mean_def less_eq_char_def less_char_def)
  show "load_stats_data
     \<lparr>data_dir = [],
      output_dir = Some
        [(''stats_2024-06-01.json'', StatsJson [(''slow delivery'', 2), (''app crashes'', 1)]),
         (''stats_2024-06-02.json'', StatsJson []),
         (''stats_2024-06-03.json'', StatsJson [(''slow delivery'', 5), (''app crashes'', 1)])],
      taxonomy_file = None, taxonomy_bak = None\<rparr> =
   Inr [(''2024-06-01'', [(''slow delivery'', 2), (''app crashes'', 1)]),
        (''2024-06-02'', []),
        (''2024-06-03'', [(''slow delivery'', 5), (''app crashes'', 1)])]"
    by (simp add: load_stats_data_def output_files_def is_stats_file_def suffix_to_prefix
        date_of_def)
  show "trend_table
     [\<lparr>Date = ''2024-06-01'', Topic = ''slow delivery'', Count = 2\<rparr>,
      \<lparr>Date = ''2024-06-01'', Topic = ''app crashes'', Count = 1\<rparr>,
      \<lparr>Date = ''2024-06-02'', Topic = ''app crashes'', Count = 3\<rparr>,
      \<lparr>Date = ''2024-06-03'', Topic = ''slow delivery'', Count = 5\<rparr>,
      \<lparr>Date = ''2024-06-03'', Topic = ''app crashes'', Count = 1\<rparr>] =
   [(''slow delivery'',
     [(''2024-06-01'', 2), (''2024-06-02'', 0), (''2024-06-03'', 5), (''Total'', 7)]),
    (''app crashes'',
     [(''2024-06-01'', 1), (''2024-06-02'', 3), (''2024-06-03'', 1), (''Total'', 5)])]"
    by (simp add: trend_table_def pivot_table_def sort_index_columns_def add_total_def
        sort_by_total_def total_of_def cell_def mean_def less_eq_char_def less_char_def)
qed

end
